theory Spec2Isabelle
  imports Main
begin

section \<open>Solidity base types and reverts\<close>

text \<open>
  The settlement engine is the set of Solidity contracts \<open>ClaimSBT\<close>, \<open>ProjectVault\<close>
  (both in \<open>lib/xrpl.ts\<close>), \<open>StakeManager\<close>, \<open>RewardNFT\<close> (in
  \<open>contracts/ProjectFactory.sol\<close>) and \<open>OracleAdapter\<close>.

  An \<open>address\<close> is a number, \<open>0\<close> being \<open>address(0)\<close>. A \<open>uint256\<close> is a natural
  number; Solidity 0.8 reverts with a panic when an addition or multiplication leaves
  the 256-bit range or a division has divisor zero, and the model writes each such check
  out. A \<open>mapping\<close> is a total function whose default value is the zero value of the
  value type. A transaction that reverts is the value \<open>Inl e\<close>; the state it started
  from is then the state that remains.
\<close>

type_synonym address = nat
type_synonym uint256 = nat
type_synonym bytes32 = nat

definition uint256_ok :: "nat \<Rightarrow> bool" where
  "uint256_ok n = (n < 2 ^ 256)"

datatype error =
    Unauthorized              \<comment> \<open>"Ownable: caller is not the owner"\<close>
  | Panic                     \<comment> \<open>checked arithmetic: overflow or division by zero\<close>
  | InvalidAmount             \<comment> \<open>"Invalid amount"\<close>
  | ClaimNotFound             \<comment> \<open>"Token does not exist" (ClaimSBT)\<close>
  | NonTransferable           \<comment> \<open>"SBT: Token is non-transferable"\<close>
  | ProjectInactive           \<comment> \<open>"Project not active"\<close>
  | DuplicatePayment          \<comment> \<open>"Payment already processed"\<close>
  | UnverifiedPayment         \<comment> \<open>"XRPL payment not verified"\<close>
  | ContributionTooSmall      \<comment> \<open>"Contribution too small"\<close>
  | InvalidShare              \<comment> \<open>mintClaim with zero basis points\<close>
  | InvalidUnlockAmount       \<comment> \<open>"Invalid unlock amount"\<close>
  | InvalidMilestone          \<comment> \<open>"Invalid milestone"\<close>
  | MilestoneAlreadyUnlocked  \<comment> \<open>"Milestone already unlocked"\<close>
  | InvalidAttestation        \<comment> \<open>"Invalid attestation"\<close>
  | NoRevenue                 \<comment> \<open>"No revenue to distribute", "No revenue available"\<close>
  | NoActiveClaims            \<comment> \<open>"No active claims"\<close>
  | NotOwner                  \<comment> \<open>"Not claim owner", "Not reward NFT owner"\<close>
  | AlreadyStaked             \<comment> \<open>"Claim already staked"\<close>
  | RewardAlreadyExists       \<comment> \<open>"Reward NFT already exists", "Reward already exists for this claim"\<close>
  | NotActive                 \<comment> \<open>"Claim not active"\<close>
  | InvalidRewardNFT          \<comment> \<open>"Invalid reward NFT"\<close>
  | RewardNotFound            \<comment> \<open>"Token does not exist" (RewardNFT)\<close>
  | RewardAlreadyBurned       \<comment> \<open>"Reward already burned"\<close>
  | UnauthorizedVerifier      \<comment> \<open>"Unauthorized verifier"\<close>
  | AlreadyVerified           \<comment> \<open>"Payment already verified"\<close>
  | ArrayLengthMismatch       \<comment> \<open>"Array length mismatch"\<close>
  | InvalidTransition         \<comment> \<open>a status change the registry does not allow\<close>
  | ERC721InvalidTokenId      \<comment> \<open>"ERC721: invalid token ID"\<close>
  | ERC721MintToZero          \<comment> \<open>"ERC721: mint to the zero address"\<close>
  | ERC721AlreadyMinted       \<comment> \<open>"ERC721: token already minted"\<close>
  | ERC721NotApproved         \<comment> \<open>"ERC721: caller is not token owner or approved"\<close>
  | ERC721IncorrectOwner      \<comment> \<open>"ERC721: transfer from incorrect owner"\<close>
  | ERC721TransferToZero      \<comment> \<open>"ERC721: transfer to the zero address"\<close>
  | ERC721ApprovalToOwner     \<comment> \<open>"ERC721: approval to current owner", "ERC721: approve to caller"\<close>
  | ECDSAInvalidSignature     \<comment> \<open>"ECDSA: invalid signature"\<close>
  | ERC20TransferToZero       \<comment> \<open>"ERC20: transfer to the zero address"\<close>
  | ERC20InsufficientBalance  \<comment> \<open>"ERC20: transfer amount exceeds balance"\<close>

text \<open>The part of OpenZeppelin's ERC721 that the two token contracts inherit: the
  owner table, with \<open>0\<close> for a token that does not exist.\<close>

definition erc721_exists :: "(nat \<Rightarrow> address) \<Rightarrow> nat \<Rightarrow> bool" where
  "erc721_exists owners tokenId = (owners tokenId \<noteq> 0)"

definition erc721_ownerOf :: "(nat \<Rightarrow> address) \<Rightarrow> nat \<Rightarrow> error + address" where
  "erc721_ownerOf owners tokenId =
     (if owners tokenId = 0 then Inl ERC721InvalidTokenId else Inr (owners tokenId))"

definition erc721_mint :: "(nat \<Rightarrow> address) \<Rightarrow> address \<Rightarrow> nat \<Rightarrow> error + (nat \<Rightarrow> address)" where
  "erc721_mint owners to tokenId =
     (if to = 0 then Inl ERC721MintToZero
      else if erc721_exists owners tokenId then Inl ERC721AlreadyMinted
      else Inr (owners(tokenId := to)))"

section \<open>OracleAdapter\<close>

record MilestoneAttestation =
  att_projectId :: uint256
  att_milestoneIndex :: uint256
  att_milestoneName :: string
  att_description :: string
  att_proofHash :: string
  att_timestamp :: uint256
  att_verifier :: address
  att_verified :: bool

record XRPLPaymentProof =
  pp_txHash :: string
  pp_sender :: address
  pp_recipient :: address
  pp_amount :: uint256
  pp_timestamp :: uint256
  pp_blockNumber :: uint256
  pp_verified :: bool

definition noAttestation :: MilestoneAttestation where
  "noAttestation = \<lparr>att_projectId = 0, att_milestoneIndex = 0, att_milestoneName = [],
     att_description = [], att_proofHash = [], att_timestamp = 0, att_verifier = 0,
     att_verified = False\<rparr>"

definition noProof :: XRPLPaymentProof where
  "noProof = \<lparr>pp_txHash = [], pp_sender = 0, pp_recipient = 0, pp_amount = 0,
     pp_timestamp = 0, pp_blockNumber = 0, pp_verified = False\<rparr>"

record OracleAdapter =
  oa_owner :: address
  authorizedVerifiers :: "address \<Rightarrow> bool"
  milestoneAttestations :: "bytes32 \<Rightarrow> MilestoneAttestation"
  xrplPaymentProofs :: "string \<Rightarrow> XRPLPaymentProof"

definition newOracleAdapter :: "address \<Rightarrow> OracleAdapter" where
  "newOracleAdapter deployer = \<lparr>oa_owner = deployer, authorizedVerifiers = (\<lambda>_. False),
     milestoneAttestations = (\<lambda>_. noAttestation), xrplPaymentProofs = (\<lambda>_. noProof)\<rparr>"

text \<open>The two hash computations and the signature recovery of
  \<open>createMilestoneAttestation\<close> are library code (\<open>keccak256\<close>, \<open>abi.encodePacked\<close>,
  \<open>ECDSA.recover\<close>). The model takes \<open>keccak256\<close> over a byte string and the recovery
  of a signer from the signed-message digest of a hash and a signature (\<open>None\<close> when
  the library rejects the signature) as parameters, and writes the packed encoding out: a \<open>uint256\<close> is 32 bytes, most significant first, a \<open>string\<close> is its
  bytes.\<close>

record crypto =
  keccak256 :: "string \<Rightarrow> bytes32"
  ecrecover :: "bytes32 \<Rightarrow> string \<Rightarrow> address option"

definition packUint256 :: "uint256 \<Rightarrow> string" where
  "packUint256 n = map (\<lambda>i. char_of (n div 256 ^ (31 - i))) [0..<32]"

definition setVerifierAuthorization ::
  "address \<Rightarrow> address \<Rightarrow> bool \<Rightarrow> OracleAdapter \<Rightarrow> error + OracleAdapter" where
  "setVerifierAuthorization caller verifier authorized oa =
     (if caller \<noteq> oa_owner oa then Inl Unauthorized
      else Inr (oa\<lparr>authorizedVerifiers := (authorizedVerifiers oa)(verifier := authorized)\<rparr>))"

definition createMilestoneAttestation ::
  "crypto \<Rightarrow> uint256 \<Rightarrow> uint256 \<Rightarrow> uint256 \<Rightarrow> string \<Rightarrow> string \<Rightarrow> string \<Rightarrow> string
     \<Rightarrow> OracleAdapter \<Rightarrow> error + (bytes32 \<times> OracleAdapter)" where
  "createMilestoneAttestation cr now projectId milestoneIndex milestoneName description
       proofHash signature oa =
     (let messageHash = keccak256 cr (packUint256 projectId @ packUint256 milestoneIndex
            @ milestoneName @ description @ proofHash @ packUint256 now)
      in case ecrecover cr messageHash signature of
        None \<Rightarrow> Inl ECDSAInvalidSignature
      | Some signer \<Rightarrow>
         if \<not> authorizedVerifiers oa signer then Inl UnauthorizedVerifier
         else
           let attestationHash = keccak256 cr (packUint256 projectId
                  @ packUint256 milestoneIndex @ proofHash @ packUint256 now)
           in Inr (attestationHash,
                oa\<lparr>milestoneAttestations := (milestoneAttestations oa)(attestationHash :=
                  \<lparr>att_projectId = projectId, att_milestoneIndex = milestoneIndex,
                   att_milestoneName = milestoneName, att_description = description,
                   att_proofHash = proofHash, att_timestamp = now, att_verifier = signer,
                   att_verified = True\<rparr>)\<rparr>))"

definition verifyMilestoneAttestation :: "OracleAdapter \<Rightarrow> bytes32 \<Rightarrow> bool" where
  "verifyMilestoneAttestation oa attestationHash =
     (let attestation = milestoneAttestations oa attestationHash
      in att_verified attestation \<and> att_verifier attestation \<noteq> 0)"

definition verifyXRPLPayment ::
  "address \<Rightarrow> string \<Rightarrow> address \<Rightarrow> address \<Rightarrow> uint256 \<Rightarrow> uint256 \<Rightarrow> uint256
     \<Rightarrow> OracleAdapter \<Rightarrow> error + (bool \<times> OracleAdapter)" where
  "verifyXRPLPayment caller txHash sender recipient amount timestamp blockNumber oa =
     (if caller \<noteq> oa_owner oa then Inl Unauthorized
      else if pp_verified (xrplPaymentProofs oa txHash) then Inl AlreadyVerified
      else Inr (True, oa\<lparr>xrplPaymentProofs := (xrplPaymentProofs oa)(txHash :=
             \<lparr>pp_txHash = txHash, pp_sender = sender, pp_recipient = recipient,
              pp_amount = amount, pp_timestamp = timestamp, pp_blockNumber = blockNumber,
              pp_verified = True\<rparr>)\<rparr>))"

definition isXRPLPaymentVerified :: "OracleAdapter \<Rightarrow> string \<Rightarrow> bool" where
  "isXRPLPaymentVerified oa txHash = pp_verified (xrplPaymentProofs oa txHash)"

text \<open>One round of the loop of \<open>batchVerifyXRPLPayments\<close>, at index \<open>i\<close>.\<close>

definition batchVerifyStep ::
  "string list \<Rightarrow> address list \<Rightarrow> address list \<Rightarrow> uint256 list \<Rightarrow> uint256 list
     \<Rightarrow> uint256 list \<Rightarrow> (string \<Rightarrow> XRPLPaymentProof) \<Rightarrow> nat \<Rightarrow> (string \<Rightarrow> XRPLPaymentProof)" where
  "batchVerifyStep txHashes senders recipients amounts timestamps blockNumbers proofs i =
     (if \<not> pp_verified (proofs (txHashes ! i))
      then proofs(txHashes ! i :=
             \<lparr>pp_txHash = txHashes ! i, pp_sender = senders ! i,
              pp_recipient = recipients ! i, pp_amount = amounts ! i,
              pp_timestamp = timestamps ! i, pp_blockNumber = blockNumbers ! i,
              pp_verified = True\<rparr>)
      else proofs)"

definition batchVerifyXRPLPayments ::
  "address \<Rightarrow> string list \<Rightarrow> address list \<Rightarrow> address list \<Rightarrow> uint256 list \<Rightarrow> uint256 list
     \<Rightarrow> uint256 list \<Rightarrow> OracleAdapter \<Rightarrow> error + OracleAdapter" where
  "batchVerifyXRPLPayments caller txHashes senders recipients amounts timestamps
       blockNumbers oa =
     (if caller \<noteq> oa_owner oa then Inl Unauthorized
      else if length txHashes \<noteq> length senders then Inl ArrayLengthMismatch
      else if length txHashes \<noteq> length recipients then Inl ArrayLengthMismatch
      else if length txHashes \<noteq> length amounts then Inl ArrayLengthMismatch
      else if length txHashes \<noteq> length timestamps then Inl ArrayLengthMismatch
      else if length txHashes \<noteq> length blockNumbers then Inl ArrayLengthMismatch
      else Inr (oa\<lparr>xrplPaymentProofs :=
             foldl (batchVerifyStep txHashes senders recipients amounts timestamps blockNumbers)
               (xrplPaymentProofs oa) [0..<length txHashes]\<rparr>))"

section \<open>ClaimSBT\<close>

datatype ClaimStatus = Active | Staked | Slashed

record Claim =
  projectId :: uint256
  basisPoints :: uint256
  status :: ClaimStatus
  joinPrice :: uint256
  xrplSourceTx :: string
  timestamp :: uint256

definition noClaim :: Claim where
  "noClaim = \<lparr>projectId = 0, basisPoints = 0, status = Active, joinPrice = 0,
     xrplSourceTx = [], timestamp = 0\<rparr>"

record ClaimSBT =
  sbt_owner :: address                    \<comment> \<open>Ownable's owner\<close>
  sbt_tokenIdCounter :: uint256
  claims :: "nat \<Rightarrow> Claim"
  userClaims :: "address \<Rightarrow> nat list"
  projectClaims :: "uint256 \<Rightarrow> nat list"
  sbt_owners :: "nat \<Rightarrow> address"          \<comment> \<open>ERC721's owner table\<close>

definition newClaimSBT :: "address \<Rightarrow> ClaimSBT" where
  "newClaimSBT deployer = \<lparr>sbt_owner = deployer, sbt_tokenIdCounter = 0,
     claims = (\<lambda>_. noClaim), userClaims = (\<lambda>_. []), projectClaims = (\<lambda>_. []),
     sbt_owners = (\<lambda>_. 0)\<rparr>"

text \<open>The search loop of \<open>mintOrTopUp\<close>: the first token of the user whose claim is
  Active, and \<open>0\<close> when there is none.\<close>

fun findActive :: "(nat \<Rightarrow> Claim) \<Rightarrow> nat list \<Rightarrow> nat" where
  "findActive cl [] = 0"
| "findActive cl (t # ts) = (if status (cl t) = Active then t else findActive cl ts)"

definition mintOrTopUp ::
  "address \<Rightarrow> uint256 \<Rightarrow> address \<Rightarrow> uint256 \<Rightarrow> ClaimSBT \<Rightarrow> error + (nat \<times> ClaimSBT)" where
  "mintOrTopUp caller now to amount sbt =
     (if caller \<noteq> sbt_owner sbt then Inl Unauthorized
      else if \<not> amount > 0 then Inl InvalidAmount
      else
        let existingTokenId = findActive (claims sbt) (userClaims sbt to)
        in if existingTokenId > 0 then
             (if \<not> uint256_ok (amount * 10000) then Inl Panic
              else if \<not> uint256_ok (basisPoints (claims sbt existingTokenId)
                        + amount * 10000 div 1000000) then Inl Panic
              else Inr (existingTokenId,
                     sbt\<lparr>claims := (claims sbt)(existingTokenId :=
                       (claims sbt existingTokenId)\<lparr>basisPoints :=
                          basisPoints (claims sbt existingTokenId)
                            + amount * 10000 div 1000000\<rparr>)\<rparr>))
           else
             let tokenId = sbt_tokenIdCounter sbt
             in if \<not> uint256_ok (tokenId + 1) then Inl Panic
                else case erc721_mint (sbt_owners sbt) to tokenId of
                  Inl e \<Rightarrow> Inl e
                | Inr owners' \<Rightarrow>
                    if \<not> uint256_ok (amount * 10000) then Inl Panic
                    else Inr (tokenId,
                      sbt\<lparr>sbt_tokenIdCounter := tokenId + 1,
                          sbt_owners := owners',
                          claims := (claims sbt)(tokenId :=
                            \<lparr>projectId = 0, basisPoints = amount * 10000 div 1000000,
                             status = Active, joinPrice = 0, xrplSourceTx = [],
                             timestamp = now\<rparr>),
                          userClaims := (userClaims sbt)(to := userClaims sbt to @ [tokenId]),
                          projectClaims := (projectClaims sbt)(0 := projectClaims sbt 0 @ [tokenId])\<rparr>))"

text \<open>Modelled from the spec: \<open>ProjectVault.processPayment\<close> calls
  \<open>claimSBT.mintClaim(investor, projectId, basisPoints, xrpPrice, xrplTxHash)\<close> and
  \<open>lib/contracts.ts\<close> declares it in the ABI, but the body is not in the source of
  \<open>ClaimSBT\<close>. The spec (4.1): mintClaim(owner, projectId, basisPoints, joinPrice,
  paymentRef) returns the claim id, fails with InvalidShare if basisPoints is 0, and
  appends the id to the per-owner and per-project indexes; a claim is created with status
  Active. The id and the owner entry are allocated as the sibling \<open>mintOrTopUp\<close> of the
  source allocates them (the counter, ERC721's mint). The spec makes it callable only
  from Payment Intake: it is not an operation an outside caller can invoke.\<close>

definition mintClaim ::
  "uint256 \<Rightarrow> address \<Rightarrow> uint256 \<Rightarrow> uint256 \<Rightarrow> uint256 \<Rightarrow> string \<Rightarrow> ClaimSBT
     \<Rightarrow> error + (nat \<times> ClaimSBT)" where
  "mintClaim now to pid bp price paymentRef sbt =
     (if bp = 0 then Inl InvalidShare
      else
        let tokenId = sbt_tokenIdCounter sbt
        in if \<not> uint256_ok (tokenId + 1) then Inl Panic
           else case erc721_mint (sbt_owners sbt) to tokenId of
             Inl e \<Rightarrow> Inl e
           | Inr owners' \<Rightarrow>
               Inr (tokenId,
                 sbt\<lparr>sbt_tokenIdCounter := tokenId + 1,
                     sbt_owners := owners',
                     claims := (claims sbt)(tokenId :=
                       \<lparr>projectId = pid, basisPoints = bp, status = Active,
                        joinPrice = price, xrplSourceTx = paymentRef, timestamp = now\<rparr>),
                     userClaims := (userClaims sbt)(to := userClaims sbt to @ [tokenId]),
                     projectClaims := (projectClaims sbt)(pid := projectClaims sbt pid @ [tokenId])\<rparr>))"

definition pause :: "address \<Rightarrow> nat \<Rightarrow> ClaimSBT \<Rightarrow> error + ClaimSBT" where
  "pause caller tokenId sbt =
     (if caller \<noteq> sbt_owner sbt then Inl Unauthorized
      else if \<not> erc721_exists (sbt_owners sbt) tokenId then Inl ClaimNotFound
      else Inr (sbt\<lparr>claims := (claims sbt)(tokenId := (claims sbt tokenId)\<lparr>status := Staked\<rparr>)\<rparr>))"

definition unpause :: "address \<Rightarrow> nat \<Rightarrow> ClaimSBT \<Rightarrow> error + ClaimSBT" where
  "unpause caller tokenId sbt =
     (if caller \<noteq> sbt_owner sbt then Inl Unauthorized
      else if \<not> erc721_exists (sbt_owners sbt) tokenId then Inl ClaimNotFound
      else Inr (sbt\<lparr>claims := (claims sbt)(tokenId := (claims sbt tokenId)\<lparr>status := Active\<rparr>)\<rparr>))"

definition getClaimData :: "ClaimSBT \<Rightarrow> nat \<Rightarrow> error + Claim" where
  "getClaimData sbt tokenId =
     (if \<not> erc721_exists (sbt_owners sbt) tokenId then Inl ClaimNotFound
      else Inr (claims sbt tokenId))"

definition getProjectClaims :: "ClaimSBT \<Rightarrow> uint256 \<Rightarrow> nat list" where
  "getProjectClaims sbt pid = projectClaims sbt pid"

text \<open>The overrides that make the token soul-bound: each one is a bare \<open>revert\<close>.\<close>

definition approve :: "address \<Rightarrow> address \<Rightarrow> nat \<Rightarrow> ClaimSBT \<Rightarrow> error + ClaimSBT" where
  "approve caller to tokenId sbt = Inl NonTransferable"

definition setApprovalForAll :: "address \<Rightarrow> address \<Rightarrow> bool \<Rightarrow> ClaimSBT \<Rightarrow> error + ClaimSBT" where
  "setApprovalForAll caller operator approved sbt = Inl NonTransferable"

definition transferFrom :: "address \<Rightarrow> address \<Rightarrow> address \<Rightarrow> nat \<Rightarrow> ClaimSBT \<Rightarrow> error + ClaimSBT" where
  "transferFrom caller from to tokenId sbt = Inl NonTransferable"

definition safeTransferFrom :: "address \<Rightarrow> address \<Rightarrow> address \<Rightarrow> nat \<Rightarrow> ClaimSBT \<Rightarrow> error + ClaimSBT" where
  "safeTransferFrom caller from to tokenId sbt = Inl NonTransferable"

definition safeTransferFromData ::
  "address \<Rightarrow> address \<Rightarrow> address \<Rightarrow> nat \<Rightarrow> string \<Rightarrow> ClaimSBT \<Rightarrow> error + ClaimSBT" where
  "safeTransferFromData caller from to tokenId data sbt = Inl NonTransferable"

text \<open>Modelled from the spec: the ABI in \<open>lib/contracts.ts\<close> declares
  \<open>updateClaimStatus(tokenId, newStatus)\<close>, whose body is not in the source of
  \<open>ClaimSBT\<close>. The spec (4.1, setStatus): an administrative caller may move a claim
  from Active to Slashed; the call fails with ClaimNotFound for a missing claim and with
  InvalidTransition for any other change. (The moves between Active and Staked are made
  by \<open>pause\<close> and \<open>unpause\<close> in the source.)\<close>

definition updateClaimStatus :: "address \<Rightarrow> nat \<Rightarrow> ClaimStatus \<Rightarrow> ClaimSBT \<Rightarrow> error + ClaimSBT" where
  "updateClaimStatus caller tokenId newStatus sbt =
     (if caller \<noteq> sbt_owner sbt then Inl Unauthorized
      else if \<not> erc721_exists (sbt_owners sbt) tokenId then Inl ClaimNotFound
      else if status (claims sbt tokenId) = Active \<and> newStatus = Slashed
      then Inr (sbt\<lparr>claims := (claims sbt)(tokenId := (claims sbt tokenId)\<lparr>status := Slashed\<rparr>)\<rparr>)
      else Inl InvalidTransition)"

section \<open>RewardNFT\<close>

record RewardData =
  claimTokenId :: uint256
  rd_projectId :: uint256
  rd_basisPoints :: uint256
  mintTimestamp :: uint256
  isActive :: bool

definition noReward :: RewardData where
  "noReward = \<lparr>claimTokenId = 0, rd_projectId = 0, rd_basisPoints = 0, mintTimestamp = 0,
     isActive = False\<rparr>"

record RewardNFT =
  rw_owner :: address                     \<comment> \<open>Ownable's owner\<close>
  rw_tokenIdCounter :: uint256
  rewards :: "nat \<Rightarrow> RewardData"
  claimToReward :: "nat \<Rightarrow> nat"
  rw_owners :: "nat \<Rightarrow> address"           \<comment> \<open>ERC721's owner table\<close>
  rw_tokenApprovals :: "nat \<Rightarrow> address"
  rw_operatorApprovals :: "address \<Rightarrow> address \<Rightarrow> bool"

definition newRewardNFT :: "address \<Rightarrow> RewardNFT" where
  "newRewardNFT deployer = \<lparr>rw_owner = deployer, rw_tokenIdCounter = 0,
     rewards = (\<lambda>_. noReward), claimToReward = (\<lambda>_. 0), rw_owners = (\<lambda>_. 0),
     rw_tokenApprovals = (\<lambda>_. 0), rw_operatorApprovals = (\<lambda>_ _. False)\<rparr>"

definition mintReward ::
  "address \<Rightarrow> uint256 \<Rightarrow> address \<Rightarrow> nat \<Rightarrow> uint256 \<Rightarrow> uint256 \<Rightarrow> RewardNFT
     \<Rightarrow> error + (nat \<times> RewardNFT)" where
  "mintReward caller now to claimId pid bp rn =
     (if caller \<noteq> rw_owner rn then Inl Unauthorized
      else if claimToReward rn claimId \<noteq> 0 then Inl RewardAlreadyExists
      else
        let tokenId = rw_tokenIdCounter rn
        in if \<not> uint256_ok (tokenId + 1) then Inl Panic
           else case erc721_mint (rw_owners rn) to tokenId of
             Inl e \<Rightarrow> Inl e
           | Inr owners' \<Rightarrow>
               Inr (tokenId,
                 rn\<lparr>rw_tokenIdCounter := tokenId + 1,
                    rw_owners := owners',
                    rewards := (rewards rn)(tokenId :=
                      \<lparr>claimTokenId = claimId, rd_projectId = pid, rd_basisPoints = bp,
                       mintTimestamp = now, isActive = True\<rparr>),
                    claimToReward := (claimToReward rn)(claimId := tokenId)\<rparr>))"

text \<open>\<open>RewardNFT.burnReward\<close>; ERC721's \<open>_burn\<close> clears the approval and the owner of
  the token.\<close>

definition RewardNFT_burnReward :: "address \<Rightarrow> nat \<Rightarrow> RewardNFT \<Rightarrow> error + RewardNFT" where
  "RewardNFT_burnReward caller tokenId rn =
     (if caller \<noteq> rw_owner rn then Inl Unauthorized
      else if \<not> erc721_exists (rw_owners rn) tokenId then Inl RewardNotFound
      else if \<not> isActive (rewards rn tokenId) then Inl RewardAlreadyBurned
      else
        let claimId = claimTokenId (rewards rn tokenId)
        in Inr (rn\<lparr>rewards := (rewards rn)(tokenId := (rewards rn tokenId)\<lparr>isActive := False\<rparr>),
                  claimToReward := (claimToReward rn)(claimId := 0),
                  rw_tokenApprovals := (rw_tokenApprovals rn)(tokenId := 0),
                  rw_owners := (rw_owners rn)(tokenId := 0)\<rparr>))"

definition hasActiveReward :: "RewardNFT \<Rightarrow> nat \<Rightarrow> bool" where
  "hasActiveReward rn claimId =
     (let rewardTokenId = claimToReward rn claimId
      in rewardTokenId \<noteq> 0 \<and> isActive (rewards rn rewardTokenId))"

text \<open>Modelled from the spec: \<open>StakeManager.burnReward\<close> calls
  \<open>rewardNFT.claimOf(rewardId)\<close>, which the source of \<open>RewardNFT\<close> does not define.
  The spec (3, Reward): a reward records the claim identifier it is paired with; in the
  source that is the field \<open>claimTokenId\<close> of the reward.\<close>

definition claimOf :: "RewardNFT \<Rightarrow> nat \<Rightarrow> nat" where
  "claimOf rn rewardId = claimTokenId (rewards rn rewardId)"

text \<open>A reward is an ordinary ERC721 token: the inherited transfer and approval
  functions are open to the owner of the token and to whom the owner approved.\<close>

definition rw_isApprovedOrOwner :: "RewardNFT \<Rightarrow> address \<Rightarrow> nat \<Rightarrow> error + bool" where
  "rw_isApprovedOrOwner rn spender tokenId =
     (case erc721_ownerOf (rw_owners rn) tokenId of
        Inl e \<Rightarrow> Inl e
      | Inr owner \<Rightarrow> Inr (spender = owner \<or> rw_operatorApprovals rn owner spender
                          \<or> rw_tokenApprovals rn tokenId = spender))"

definition rw_transferFrom ::
  "address \<Rightarrow> address \<Rightarrow> address \<Rightarrow> nat \<Rightarrow> RewardNFT \<Rightarrow> error + RewardNFT" where
  "rw_transferFrom caller from to tokenId rn =
     (case rw_isApprovedOrOwner rn caller tokenId of
        Inl e \<Rightarrow> Inl e
      | Inr ok \<Rightarrow>
          if \<not> ok then Inl ERC721NotApproved
          else if rw_owners rn tokenId \<noteq> from then Inl ERC721IncorrectOwner
          else if to = 0 then Inl ERC721TransferToZero
          else Inr (rn\<lparr>rw_tokenApprovals := (rw_tokenApprovals rn)(tokenId := 0),
                      rw_owners := (rw_owners rn)(tokenId := to)\<rparr>))"

definition rw_approve :: "address \<Rightarrow> address \<Rightarrow> nat \<Rightarrow> RewardNFT \<Rightarrow> error + RewardNFT" where
  "rw_approve caller to tokenId rn =
     (case erc721_ownerOf (rw_owners rn) tokenId of
        Inl e \<Rightarrow> Inl e
      | Inr owner \<Rightarrow>
          if to = owner then Inl ERC721ApprovalToOwner
          else if \<not> (caller = owner \<or> rw_operatorApprovals rn owner caller)
          then Inl ERC721NotApproved
          else Inr (rn\<lparr>rw_tokenApprovals := (rw_tokenApprovals rn)(tokenId := to)\<rparr>))"

definition rw_setApprovalForAll :: "address \<Rightarrow> address \<Rightarrow> bool \<Rightarrow> RewardNFT \<Rightarrow> error + RewardNFT" where
  "rw_setApprovalForAll caller operator approved rn =
     (if caller = operator then Inl ERC721ApprovalToOwner
      else Inr (rn\<lparr>rw_operatorApprovals := (rw_operatorApprovals rn)(caller :=
                  (rw_operatorApprovals rn caller)(operator := approved))\<rparr>))"

section \<open>StakeManager, ProjectVault and the engine\<close>

record StakeInfo =
  si_claimTokenId :: uint256
  staker :: address
  stakeTimestamp :: uint256
  isStaked :: bool

definition noStake :: StakeInfo where
  "noStake = \<lparr>si_claimTokenId = 0, staker = 0, stakeTimestamp = 0, isStaked = False\<rparr>"

record StakeManager =
  sm_address :: address                   \<comment> \<open>\<open>address(this)\<close>: the sender of its calls\<close>
  stakes :: "nat \<Rightarrow> StakeInfo"
  userStakes :: "address \<Rightarrow> nat list"

datatype MilestoneStatus = Pending | Unlocked | Completed

record Project =
  p_projectId :: uint256
  title :: string
  p_description :: string
  creator :: address
  totalFunding :: uint256
  totalRaised :: uint256
  p_isActive :: bool
  createdAt :: uint256

record Milestone =
  name :: string
  m_description :: string
  unlockAmount :: uint256
  m_status :: MilestoneStatus
  unlockTimestamp :: uint256
  attestationHash :: string

record RevenueEntry =
  re_amount :: uint256
  re_timestamp :: uint256
  source :: string

datatype VaultEvent =
    PaymentProcessed address uint256 uint256 string
  | MilestoneAdded uint256 nat string uint256
  | MilestoneUnlocked uint256 nat string
  | RevenueAdded uint256 uint256 string
  | RevenueDistributed uint256 uint256 uint256

record ProjectVault =
  pv_owner :: address                     \<comment> \<open>Ownable's owner\<close>
  pv_address :: address                   \<comment> \<open>\<open>address(this)\<close>: the payer of a distribution\<close>
  project :: Project
  milestones :: "Milestone list"
  revenueEntries :: "RevenueEntry list"
  userContributions :: "address \<Rightarrow> uint256"
  processedPayments :: "bytes32 \<Rightarrow> bool"
  pv_events :: "VaultEvent list"

text \<open>The engine: the five contracts and the balances of the ERC20 token that a
  distribution pays in.\<close>

record Engine =
  claimSBT :: ClaimSBT
  rewardNFT :: RewardNFT
  stakeManager :: StakeManager
  vault :: ProjectVault
  oracleAdapter :: OracleAdapter
  flareToken :: "address \<Rightarrow> uint256"

definition erc20_transfer ::
  "(address \<Rightarrow> uint256) \<Rightarrow> address \<Rightarrow> address \<Rightarrow> uint256 \<Rightarrow> error + (address \<Rightarrow> uint256)" where
  "erc20_transfer bal from to amount =
     (if to = 0 then Inl ERC20TransferToZero
      else if bal from < amount then Inl ERC20InsufficientBalance
      else let bal' = bal(from := bal from - amount)
           in Inr (bal'(to := bal' to + amount)))"

subsection \<open>StakeManager\<close>

definition stakeAndMintReward :: "address \<Rightarrow> uint256 \<Rightarrow> nat \<Rightarrow> Engine \<Rightarrow> error + Engine" where
  "stakeAndMintReward caller now claimId e =
     (case erc721_ownerOf (sbt_owners (claimSBT e)) claimId of
        Inl err \<Rightarrow> Inl err
      | Inr owner \<Rightarrow>
          if owner \<noteq> caller then Inl NotOwner
          else if isStaked (stakes (stakeManager e) claimId) then Inl AlreadyStaked
          else if hasActiveReward (rewardNFT e) claimId then Inl RewardAlreadyExists
          else (case getClaimData (claimSBT e) claimId of
            Inl err \<Rightarrow> Inl err
          | Inr claimData \<Rightarrow>
              if status claimData \<noteq> Active then Inl NotActive
              else (case pause (sm_address (stakeManager e)) claimId (claimSBT e) of
                Inl err \<Rightarrow> Inl err
              | Inr sbt' \<Rightarrow>
                  let sm' = (stakeManager e)\<lparr>
                        stakes := (stakes (stakeManager e))(claimId :=
                          \<lparr>si_claimTokenId = claimId, staker = caller,
                           stakeTimestamp = now, isStaked = True\<rparr>),
                        userStakes := (userStakes (stakeManager e))(caller :=
                          userStakes (stakeManager e) caller @ [claimId])\<rparr>
                  in (case mintReward (sm_address (stakeManager e)) now caller claimId
                            (projectId claimData) (basisPoints claimData) (rewardNFT e) of
                    Inl err \<Rightarrow> Inl err
                  | Inr (rewardTokenId, rn') \<Rightarrow>
                      Inr (e\<lparr>claimSBT := sbt', stakeManager := sm', rewardNFT := rn'\<rparr>)))))"

definition burnReward :: "address \<Rightarrow> nat \<Rightarrow> Engine \<Rightarrow> error + Engine" where
  "burnReward caller rewardId e =
     (case erc721_ownerOf (rw_owners (rewardNFT e)) rewardId of
        Inl err \<Rightarrow> Inl err
      | Inr owner \<Rightarrow>
          if owner \<noteq> caller then Inl NotOwner
          else
            let claimId = claimOf (rewardNFT e) rewardId
            in if \<not> claimId \<noteq> 0 then Inl InvalidRewardNFT
               else (case RewardNFT_burnReward (sm_address (stakeManager e)) rewardId (rewardNFT e) of
                 Inl err \<Rightarrow> Inl err
               | Inr rn' \<Rightarrow>
                   (case unpause (sm_address (stakeManager e)) claimId (claimSBT e) of
                      Inl err \<Rightarrow> Inl err
                    | Inr sbt' \<Rightarrow>
                        Inr (e\<lparr>rewardNFT := rn', claimSBT := sbt',
                               stakeManager := (stakeManager e)\<lparr>
                                 stakes := (stakes (stakeManager e))(claimId :=
                                   (stakes (stakeManager e) claimId)\<lparr>isStaked := False\<rparr>)\<rparr>\<rparr>))))"

subsection \<open>ProjectVault\<close>

definition addMilestone ::
  "address \<Rightarrow> string \<Rightarrow> string \<Rightarrow> uint256 \<Rightarrow> ProjectVault \<Rightarrow> error + ProjectVault" where
  "addMilestone caller nm descr amount v =
     (if caller \<noteq> pv_owner v then Inl Unauthorized
      else if \<not> p_isActive (project v) then Inl ProjectInactive
      else if \<not> amount > 0 then Inl InvalidUnlockAmount
      else Inr (v\<lparr>milestones := milestones v @
                   [\<lparr>name = nm, m_description = descr, unlockAmount = amount,
                     m_status = Pending, unlockTimestamp = 0, attestationHash = []\<rparr>],
                 pv_events := pv_events v @
                   [MilestoneAdded (p_projectId (project v)) (length (milestones v)) nm amount]\<rparr>))"

definition processPayment ::
  "crypto \<Rightarrow> address \<Rightarrow> uint256 \<Rightarrow> address \<Rightarrow> uint256 \<Rightarrow> string \<Rightarrow> uint256 \<Rightarrow> Engine
     \<Rightarrow> error + Engine" where
  "processPayment cr caller now investor xrpAmount xrplTxHash xrpPrice e =
     (let v = vault e in
      if caller \<noteq> pv_owner v then Inl Unauthorized
      else if \<not> p_isActive (project v) then Inl ProjectInactive
      else if processedPayments v (keccak256 cr xrplTxHash) then Inl DuplicatePayment
      else if \<not> xrpAmount > 0 then Inl InvalidAmount
      else if \<not> isXRPLPaymentVerified (oracleAdapter e) xrplTxHash then Inl UnverifiedPayment
      else if \<not> uint256_ok (xrpAmount * 10000) then Inl Panic
      else if totalFunding (project v) = 0 then Inl Panic
      else
        let bp = xrpAmount * 10000 div totalFunding (project v)
        in if \<not> bp > 0 then Inl ContributionTooSmall
           else if \<not> uint256_ok (totalRaised (project v) + xrpAmount) then Inl Panic
           else if \<not> uint256_ok (userContributions v investor + xrpAmount) then Inl Panic
           else case mintClaim now investor (p_projectId (project v)) bp xrpPrice xrplTxHash
                       (claimSBT e) of
             Inl err \<Rightarrow> Inl err
           | Inr (tokenId, sbt') \<Rightarrow>
               Inr (e\<lparr>claimSBT := sbt',
                      vault := v\<lparr>
                        project := (project v)\<lparr>totalRaised := totalRaised (project v) + xrpAmount\<rparr>,
                        userContributions := (userContributions v)(investor :=
                          userContributions v investor + xrpAmount),
                        processedPayments := (processedPayments v)(keccak256 cr xrplTxHash := True),
                        pv_events := pv_events v @
                          [PaymentProcessed investor xrpAmount bp xrplTxHash]\<rparr>\<rparr>))"

definition unlockMilestone ::
  "crypto \<Rightarrow> address \<Rightarrow> uint256 \<Rightarrow> nat \<Rightarrow> string \<Rightarrow> Engine \<Rightarrow> error + Engine" where
  "unlockMilestone cr caller now milestoneIndex attHash e =
     (let v = vault e in
      if caller \<noteq> pv_owner v then Inl Unauthorized
      else if \<not> milestoneIndex < length (milestones v) then Inl InvalidMilestone
      else if m_status (milestones v ! milestoneIndex) \<noteq> Pending then Inl MilestoneAlreadyUnlocked
      else
        let attestationBytes = keccak256 cr attHash
        in if \<not> verifyMilestoneAttestation (oracleAdapter e) attestationBytes
           then Inl InvalidAttestation
           else Inr (e\<lparr>vault := v\<lparr>
                  milestones := (milestones v)[milestoneIndex :=
                    (milestones v ! milestoneIndex)\<lparr>m_status := Unlocked,
                       unlockTimestamp := now, attestationHash := attHash\<rparr>],
                  pv_events := pv_events v @
                    [MilestoneUnlocked (p_projectId (project v)) milestoneIndex attHash]\<rparr>\<rparr>))"

definition addRevenue ::
  "address \<Rightarrow> uint256 \<Rightarrow> uint256 \<Rightarrow> string \<Rightarrow> ProjectVault \<Rightarrow> error + ProjectVault" where
  "addRevenue caller now amount src v =
     (if caller \<noteq> pv_owner v then Inl Unauthorized
      else if \<not> amount > 0 then Inl InvalidAmount
      else Inr (v\<lparr>revenueEntries := revenueEntries v @
                   [\<lparr>re_amount = amount, re_timestamp = now, source = src\<rparr>],
                 pv_events := pv_events v @
                   [RevenueAdded (p_projectId (project v)) amount src]\<rparr>))"

text \<open>The three loops of \<open>distributeRevenue\<close>: the sum of the pending entries, the
  count and the sum of basis points of the Active claims, and the payments.\<close>

fun sumRevenue :: "RevenueEntry list \<Rightarrow> uint256 \<Rightarrow> error + uint256" where
  "sumRevenue [] totalRevenue = Inr totalRevenue"
| "sumRevenue (x # xs) totalRevenue =
     (if \<not> uint256_ok (totalRevenue + re_amount x) then Inl Panic
      else sumRevenue xs (totalRevenue + re_amount x))"

fun sumActive :: "ClaimSBT \<Rightarrow> nat list \<Rightarrow> uint256 \<Rightarrow> uint256 \<Rightarrow> error + (uint256 \<times> uint256)" where
  "sumActive sbt [] activeClaims totalActiveBasisPoints =
     Inr (activeClaims, totalActiveBasisPoints)"
| "sumActive sbt (t # ts) activeClaims totalActiveBasisPoints =
     (case getClaimData sbt t of
        Inl err \<Rightarrow> Inl err
      | Inr claimData \<Rightarrow>
          if status claimData = Active then
            (if \<not> uint256_ok (activeClaims + 1) then Inl Panic
             else if \<not> uint256_ok (totalActiveBasisPoints + basisPoints claimData) then Inl Panic
             else sumActive sbt ts (activeClaims + 1)
                    (totalActiveBasisPoints + basisPoints claimData))
          else sumActive sbt ts activeClaims totalActiveBasisPoints)"

fun payClaims ::
  "ClaimSBT \<Rightarrow> address \<Rightarrow> uint256 \<Rightarrow> uint256 \<Rightarrow> nat list \<Rightarrow> (address \<Rightarrow> uint256)
     \<Rightarrow> error + (address \<Rightarrow> uint256)" where
  "payClaims sbt payer totalRevenue totalActiveBasisPoints [] bal = Inr bal"
| "payClaims sbt payer totalRevenue totalActiveBasisPoints (t # ts) bal =
     (case getClaimData sbt t of
        Inl err \<Rightarrow> Inl err
      | Inr claimData \<Rightarrow>
          if status claimData = Active then
            (if \<not> uint256_ok (totalRevenue * basisPoints claimData) then Inl Panic
             else if totalActiveBasisPoints = 0 then Inl Panic
             else
               let share = totalRevenue * basisPoints claimData div totalActiveBasisPoints
               in if share > 0 then
                    (case erc721_ownerOf (sbt_owners sbt) t of
                       Inl err \<Rightarrow> Inl err
                     | Inr owner \<Rightarrow>
                         (case erc20_transfer bal payer owner share of
                            Inl err \<Rightarrow> Inl err
                          | Inr bal' \<Rightarrow>
                              payClaims sbt payer totalRevenue totalActiveBasisPoints ts bal'))
                  else payClaims sbt payer totalRevenue totalActiveBasisPoints ts bal)
          else payClaims sbt payer totalRevenue totalActiveBasisPoints ts bal)"

definition distributeRevenue :: "address \<Rightarrow> Engine \<Rightarrow> error + Engine" where
  "distributeRevenue caller e =
     (let v = vault e in
      if caller \<noteq> pv_owner v then Inl Unauthorized
      else if \<not> length (revenueEntries v) > 0 then Inl NoRevenue
      else case sumRevenue (revenueEntries v) 0 of
        Inl err \<Rightarrow> Inl err
      | Inr totalRevenue \<Rightarrow>
          if \<not> totalRevenue > 0 then Inl NoRevenue
          else
            let claimTokenIds = getProjectClaims (claimSBT e) (p_projectId (project v))
            in (case sumActive (claimSBT e) claimTokenIds 0 0 of
              Inl err \<Rightarrow> Inl err
            | Inr (activeClaims, totalActiveBasisPoints) \<Rightarrow>
                if \<not> activeClaims > 0 then Inl NoActiveClaims
                else (case payClaims (claimSBT e) (pv_address v) totalRevenue
                            totalActiveBasisPoints claimTokenIds (flareToken e) of
                  Inl err \<Rightarrow> Inl err
                | Inr bal' \<Rightarrow>
                    Inr (e\<lparr>flareToken := bal',
                           vault := v\<lparr>revenueEntries := [],
                             pv_events := pv_events v @
                               [RevenueDistributed (p_projectId (project v)) totalRevenue
                                  activeClaims]\<rparr>\<rparr>))))"

subsection \<open>Transactions\<close>

text \<open>The state-changing external functions of the five contracts, and a transfer of
  the payout token between accounts. \<open>mintClaim\<close> is not among them: only
  \<open>processPayment\<close> reaches it. \<open>updateClaimStatus\<close>, whose body is missing from
  the source, is not among them either: \<open>AdminOp\<close> adds it to these operations. A
  transaction is atomic: the callbacks of a token
  receiver and re-entrant calls (which \<open>nonReentrant\<close> rejects) are outside the model,
  and so is the handover of a contract's ownership (\<open>Ownable.transferOwnership\<close>):
  every contract keeps the owner it is deployed with. Of the events, those of the vault
  are recorded.\<close>

datatype Op =
    MintOrTopUp address uint256
  | Pause nat
  | Unpause nat
  | Approve address nat
  | SetApprovalForAll address bool
  | TransferFrom address address nat
  | SafeTransferFrom address address nat
  | SafeTransferFromData address address nat string
  | MintReward address nat uint256 uint256
  | RewardBurn nat
  | RewardTransferFrom address address nat
  | RewardApprove address nat
  | RewardSetApprovalForAll address bool
  | StakeAndMintReward nat
  | BurnReward nat
  | AddMilestone string string uint256
  | ProcessPayment address uint256 string uint256
  | UnlockMilestone nat string
  | AddRevenue uint256 string
  | DistributeRevenue
  | SetVerifierAuthorization address bool
  | CreateMilestoneAttestation uint256 uint256 string string string string
  | VerifyXRPLPayment string address address uint256 uint256 uint256
  | BatchVerifyXRPLPayments "string list" "address list" "address list" "uint256 list"
      "uint256 list" "uint256 list"
  | TokenTransfer address uint256

definition inClaimSBT :: "Engine \<Rightarrow> error + ClaimSBT \<Rightarrow> error + Engine" where
  "inClaimSBT e r = (case r of Inl err \<Rightarrow> Inl err | Inr sbt' \<Rightarrow> Inr (e\<lparr>claimSBT := sbt'\<rparr>))"

definition inRewardNFT :: "Engine \<Rightarrow> error + RewardNFT \<Rightarrow> error + Engine" where
  "inRewardNFT e r = (case r of Inl err \<Rightarrow> Inl err | Inr rn' \<Rightarrow> Inr (e\<lparr>rewardNFT := rn'\<rparr>))"

definition inVault :: "Engine \<Rightarrow> error + ProjectVault \<Rightarrow> error + Engine" where
  "inVault e r = (case r of Inl err \<Rightarrow> Inl err | Inr v' \<Rightarrow> Inr (e\<lparr>vault := v'\<rparr>))"

definition inOracle :: "Engine \<Rightarrow> error + OracleAdapter \<Rightarrow> error + Engine" where
  "inOracle e r = (case r of Inl err \<Rightarrow> Inl err | Inr oa' \<Rightarrow> Inr (e\<lparr>oracleAdapter := oa'\<rparr>))"

definition dropResult :: "error + ('r \<times> 's) \<Rightarrow> error + 's" where
  "dropResult r = (case r of Inl err \<Rightarrow> Inl err | Inr x \<Rightarrow> Inr (snd x))"

text \<open>One external call: \<open>caller\<close> is \<open>msg.sender\<close>, \<open>now\<close> is \<open>block.timestamp\<close>.\<close>

primrec exec :: "crypto \<Rightarrow> address \<Rightarrow> uint256 \<Rightarrow> Op \<Rightarrow> Engine \<Rightarrow> error + Engine" where
  "exec cr caller now (MintOrTopUp to amount) e =
     inClaimSBT e (dropResult (mintOrTopUp caller now to amount (claimSBT e)))"
| "exec cr caller now (Pause tokenId) e = inClaimSBT e (pause caller tokenId (claimSBT e))"
| "exec cr caller now (Unpause tokenId) e = inClaimSBT e (unpause caller tokenId (claimSBT e))"
| "exec cr caller now (Approve to tokenId) e =
     inClaimSBT e (approve caller to tokenId (claimSBT e))"
| "exec cr caller now (SetApprovalForAll operator approved) e =
     inClaimSBT e (setApprovalForAll caller operator approved (claimSBT e))"
| "exec cr caller now (TransferFrom from to tokenId) e =
     inClaimSBT e (transferFrom caller from to tokenId (claimSBT e))"
| "exec cr caller now (SafeTransferFrom from to tokenId) e =
     inClaimSBT e (safeTransferFrom caller from to tokenId (claimSBT e))"
| "exec cr caller now (SafeTransferFromData from to tokenId data) e =
     inClaimSBT e (safeTransferFromData caller from to tokenId data (claimSBT e))"
| "exec cr caller now (MintReward to claimId pid bp) e =
     inRewardNFT e (dropResult (mintReward caller now to claimId pid bp (rewardNFT e)))"
| "exec cr caller now (RewardBurn tokenId) e =
     inRewardNFT e (RewardNFT_burnReward caller tokenId (rewardNFT e))"
| "exec cr caller now (RewardTransferFrom from to tokenId) e =
     inRewardNFT e (rw_transferFrom caller from to tokenId (rewardNFT e))"
| "exec cr caller now (RewardApprove to tokenId) e =
     inRewardNFT e (rw_approve caller to tokenId (rewardNFT e))"
| "exec cr caller now (RewardSetApprovalForAll operator approved) e =
     inRewardNFT e (rw_setApprovalForAll caller operator approved (rewardNFT e))"
| "exec cr caller now (StakeAndMintReward claimId) e = stakeAndMintReward caller now claimId e"
| "exec cr caller now (BurnReward rewardId) e = burnReward caller rewardId e"
| "exec cr caller now (AddMilestone nm descr amount) e =
     inVault e (addMilestone caller nm descr amount (vault e))"
| "exec cr caller now (ProcessPayment investor xrpAmount xrplTxHash xrpPrice) e =
     processPayment cr caller now investor xrpAmount xrplTxHash xrpPrice e"
| "exec cr caller now (UnlockMilestone milestoneIndex attHash) e =
     unlockMilestone cr caller now milestoneIndex attHash e"
| "exec cr caller now (AddRevenue amount src) e =
     inVault e (addRevenue caller now amount src (vault e))"
| "exec cr caller now DistributeRevenue e = distributeRevenue caller e"
| "exec cr caller now (SetVerifierAuthorization verifier authorized) e =
     inOracle e (setVerifierAuthorization caller verifier authorized (oracleAdapter e))"
| "exec cr caller now (CreateMilestoneAttestation pid milestoneIndex nm descr proofHash signature) e =
     inOracle e (dropResult (createMilestoneAttestation cr now pid milestoneIndex nm descr
        proofHash signature (oracleAdapter e)))"
| "exec cr caller now (VerifyXRPLPayment txHash sender recipient amount ts blockNumber) e =
     inOracle e (dropResult (verifyXRPLPayment caller txHash sender recipient amount ts
        blockNumber (oracleAdapter e)))"
| "exec cr caller now (BatchVerifyXRPLPayments txHashes senders recipients amounts tss blockNumbers) e =
     inOracle e (batchVerifyXRPLPayments caller txHashes senders recipients amounts tss
        blockNumbers (oracleAdapter e))"
| "exec cr caller now (TokenTransfer to amount) e =
     (case erc20_transfer (flareToken e) caller to amount of
        Inl err \<Rightarrow> Inl err
      | Inr bal' \<Rightarrow> Inr (e\<lparr>flareToken := bal'\<rparr>))"

text \<open>A transaction commits its changes or, when it reverts, leaves the state it
  started from. A run is a sequence of transactions, each with its sender and its time.\<close>

definition call :: "crypto \<Rightarrow> address \<times> uint256 \<times> Op \<Rightarrow> Engine \<Rightarrow> Engine" where
  "call cr t e =
     (case exec cr (fst t) (fst (snd t)) (snd (snd t)) e of Inl err \<Rightarrow> e | Inr e' \<Rightarrow> e')"

definition run :: "crypto \<Rightarrow> (address \<times> uint256 \<times> Op) list \<Rightarrow> Engine \<Rightarrow> Engine" where
  "run cr ts e = foldl (\<lambda>e' t. call cr t e') e ts"

subsection \<open>Deployment\<close>

definition newStakeManager :: "address \<Rightarrow> StakeManager" where
  "newStakeManager self = \<lparr>sm_address = self, stakes = (\<lambda>_. noStake), userStakes = (\<lambda>_. [])\<rparr>"

text \<open>The constructor of \<open>ProjectVault\<close>; the factory hands the ownership to the
  creator.\<close>

definition newProjectVault ::
  "address \<Rightarrow> address \<Rightarrow> uint256 \<Rightarrow> uint256 \<Rightarrow> string \<Rightarrow> string \<Rightarrow> address \<Rightarrow> uint256
     \<Rightarrow> ProjectVault" where
  "newProjectVault owner self now pid ttl descr crt funding =
     \<lparr>pv_owner = owner, pv_address = self,
      project = \<lparr>p_projectId = pid, title = ttl, p_description = descr, creator = crt,
        totalFunding = funding, totalRaised = 0, p_isActive = True, createdAt = now\<rparr>,
      milestones = [], revenueEntries = [], userContributions = (\<lambda>_. 0),
      processedPayments = (\<lambda>_. False), pv_events = []\<rparr>"

text \<open>A freshly deployed engine: \<open>registrar\<close> owns the two token contracts (the address
  whose calls to \<open>pause\<close>, \<open>unpause\<close>, \<open>mintReward\<close> and \<open>burnReward\<close> pass
  \<open>onlyOwner\<close>), \<open>admin\<close> owns the oracle and the vault.\<close>

definition deploy ::
  "address \<Rightarrow> address \<Rightarrow> address \<Rightarrow> address \<Rightarrow> uint256 \<Rightarrow> uint256
     \<Rightarrow> (address \<Rightarrow> uint256) \<Rightarrow> Engine" where
  "deploy registrar smAddr admin vaultAddr pid funding bal =
     \<lparr>claimSBT = newClaimSBT registrar, rewardNFT = newRewardNFT registrar,
      stakeManager = newStakeManager smAddr,
      vault = newProjectVault admin vaultAddr 0 pid [] [] admin funding,
      oracleAdapter = newOracleAdapter admin, flareToken = bal\<rparr>"

section \<open>Notions used to state the properties\<close>

text \<open>The first position of an entry in a list, and the proof that the batch stores
  for position \<open>i\<close> of its arguments.\<close>

fun firstIndex :: "'a list \<Rightarrow> 'a \<Rightarrow> nat" where
  "firstIndex [] x = 0"
| "firstIndex (y # ys) x = (if x = y then 0 else Suc (firstIndex ys x))"

definition batchProof ::
  "string list \<Rightarrow> address list \<Rightarrow> address list \<Rightarrow> uint256 list \<Rightarrow> uint256 list
     \<Rightarrow> uint256 list \<Rightarrow> nat \<Rightarrow> XRPLPaymentProof" where
  "batchProof txHashes senders recipients amounts timestamps blockNumbers i =
     \<lparr>pp_txHash = txHashes ! i, pp_sender = senders ! i,
      pp_recipient = recipients ! i, pp_amount = amounts ! i,
      pp_timestamp = timestamps ! i, pp_blockNumber = blockNumbers ! i,
      pp_verified = True\<rparr>"

text \<open>An oracle, owned by account 1, that has verified the payment \<open>tx1\<close> of amount
  100.\<close>

definition oracleWithTx1 :: OracleAdapter where
  "oracleWithTx1 = (newOracleAdapter 1)\<lparr>xrplPaymentProofs := (\<lambda>_. noProof)(''tx1'' :=
     \<lparr>pp_txHash = ''tx1'', pp_sender = 2, pp_recipient = 3, pp_amount = 100,
      pp_timestamp = 5, pp_blockNumber = 6, pp_verified = True\<rparr>)\<rparr>"

text \<open>Stand-ins for the two library functions, for the runs that are evaluated: a
  polynomial hash in place of \<open>keccak256\<close>, and a recovery that reads the signer off the
  length of the signature.\<close>

definition demoCrypto :: crypto where
  "demoCrypto = \<lparr>keccak256 = (\<lambda>s. foldl (\<lambda>h c. (h * 31 + of_char c + 1) mod 65521) 0 s),
     ecrecover = (\<lambda>h sig. if sig = [] then None else Some (length sig))\<rparr>"

text \<open>What a distribution is specified to pay: the pending total, the Active claims of
  the vault's project, their total share, the payout of a claim, and what an account
  receives for the Active claims it owns.\<close>

definition pendingTotal :: "ProjectVault \<Rightarrow> uint256" where
  "pendingTotal v = sum_list (map re_amount (revenueEntries v))"

definition activeClaimIds :: "Engine \<Rightarrow> nat list" where
  "activeClaimIds e = filter (\<lambda>t. status (claims (claimSBT e) t) = Active)
     (projectClaims (claimSBT e) (p_projectId (project (vault e))))"

definition totalShare :: "Engine \<Rightarrow> uint256" where
  "totalShare e = sum_list (map (\<lambda>t. basisPoints (claims (claimSBT e) t)) (activeClaimIds e))"

definition payout :: "Engine \<Rightarrow> nat \<Rightarrow> uint256" where
  "payout e t = pendingTotal (vault e) * basisPoints (claims (claimSBT e) t) div totalShare e"

definition received :: "Engine \<Rightarrow> address \<Rightarrow> uint256" where
  "received e a = sum_list (map (payout e)
     (filter (\<lambda>t. sbt_owners (claimSBT e) t = a) (activeClaimIds e)))"

text \<open>A project of funding target 10000 (vault at address 4, owned by account 3; the
  token registries owned by the stake manager at address 2) after three verified
  payments \<open>s0\<close>, \<open>s1\<close>, \<open>s2\<close> by the accounts 10, 11 and 12 and one revenue entry
  \<open>tot\<close>; the vault holds \<open>tot + 50\<close> tokens.\<close>

definition funded :: "uint256 \<Rightarrow> uint256 \<Rightarrow> uint256 \<Rightarrow> uint256 \<Rightarrow> Engine" where
  "funded s0 s1 s2 tot = run demoCrypto
     [(3, 0, BatchVerifyXRPLPayments [''tx0'', ''tx1'', ''tx2''] [20, 21, 22] [4, 4, 4]
               [s0, s1, s2] [0, 0, 0] [0, 0, 0]),
      (3, 1, ProcessPayment 10 s0 ''tx0'' 62),
      (3, 2, ProcessPayment 11 s1 ''tx1'' 62),
      (3, 3, ProcessPayment 12 s2 ''tx2'' 62),
      (3, 4, AddRevenue tot ''box_office'')]
     (deploy 2 2 3 4 1 10000 ((\<lambda>_. 0)(4 := tot + 50)))"

text \<open>A sequence of \<open>addRevenue\<close> transactions by one caller.\<close>

definition addRevenues ::
  "address \<Rightarrow> uint256 \<Rightarrow> (uint256 \<times> string) list \<Rightarrow> (address \<times> uint256 \<times> Op) list" where
  "addRevenues caller now adds = map (\<lambda>x. (caller, now, AddRevenue (fst x) (snd x))) adds"

text \<open>The scenario of the spec: a project of funding target 100000 whose oracle has
  verified the payment \<open>tx1\<close> of 25000; and the same project after a verified payment
  of 250000, more than the target.\<close>

definition tx1Verified :: Engine where
  "tx1Verified = run demoCrypto [(3, 0, VerifyXRPLPayment ''tx1'' 20 4 25000 0 0)]
     (deploy 2 2 3 4 1 100000 (\<lambda>_. 0))"

definition overfunded :: Engine where
  "overfunded = run demoCrypto
     [(3, 0, VerifyXRPLPayment ''tx9'' 20 4 250000 0 0),
      (3, 1, ProcessPayment 10 250000 ''tx9'' 62)]
     (deploy 2 2 3 4 1 100000 (\<lambda>_. 0))"

text \<open>The claims of the vault's project that were minted for a payment reference, and
  the one operation that mints a claim without a payment.\<close>

definition claimsOf :: "Engine \<Rightarrow> string \<Rightarrow> nat list" where
  "claimsOf e r = filter (\<lambda>t. projectId (claims (claimSBT e) t) = p_projectId (project (vault e))
        \<and> xrplSourceTx (claims (claimSBT e) t) = r)
     [0..<sbt_tokenIdCounter (claimSBT e)]"

fun registryMint :: "Op \<Rightarrow> bool" where
  "registryMint (MintOrTopUp to amount) = True"
| "registryMint op = False"

definition intakeRun :: "(address \<times> uint256 \<times> Op) list \<Rightarrow> bool" where
  "intakeRun ts = list_all (\<lambda>t. \<not> registryMint (snd (snd t))) ts"

text \<open>The invariant of payment intake: a reference has at most one claim of the
  project, and has one only when it is marked processed.\<close>

definition consumedOnce :: "crypto \<Rightarrow> Engine \<Rightarrow> bool" where
  "consumedOnce cr e = (\<forall>r. length (claimsOf e r) \<le> 1
      \<and> (claimsOf e r \<noteq> [] \<longrightarrow> processedPayments (vault e) (keccak256 cr r)))"

text \<open>The scenario continued: the verified payment \<open>tx1\<close> is processed, and processed
  again.\<close>

definition paidTwice :: Engine where
  "paidTwice = run demoCrypto
     [(3, 0, VerifyXRPLPayment ''tx1'' 20 4 25000 0 0),
      (3, 1, ProcessPayment 10 25000 ''tx1'' 62),
      (3, 2, ProcessPayment 10 25000 ''tx1'' 62)]
     (deploy 2 2 3 4 1 100000 (\<lambda>_. 0))"

text \<open>How a caller writes a 32-byte key as text: \<open>0x\<close> and 64 hexadecimal digits.\<close>

definition hexDigit :: "nat \<Rightarrow> char" where
  "hexDigit d = ''0123456789abcdef'' ! (d mod 16)"

definition bytes32Hex :: "bytes32 \<Rightarrow> string" where
  "bytes32Hex k = ''0x'' @ map (\<lambda>i. hexDigit (k div 16 ^ (63 - i))) [0..<64]"

text \<open>A vault with one Pending milestone and an oracle that has accepted, at time 7, an
  attestation for it signed by the authorized verifier 5; the key that
  \<open>createMilestoneAttestation\<close> returned for it.\<close>

definition attestedKey :: bytes32 where
  "attestedKey = keccak256 demoCrypto
     (packUint256 1 @ packUint256 0 @ ''QmProof'' @ packUint256 7)"

definition beforeAttestation :: Engine where
  "beforeAttestation = run demoCrypto
     [(3, 0, SetVerifierAuthorization 5 True),
      (3, 1, AddMilestone ''script'' ''final draft'' 100)]
     (deploy 2 2 3 4 1 100000 (\<lambda>_. 0))"

definition attested :: Engine where
  "attested = call demoCrypto
     (9, 7, CreateMilestoneAttestation 1 0 ''script'' ''final draft'' ''QmProof'' ''sig05'')
     beforeAttestation"

text \<open>The active rewards that reference a claim, the owner-only functions of the two
  token contracts (the stake manager calls them from inside its own two operations),
  and the runs that do not call them directly.\<close>

definition activeRewardsOf :: "Engine \<Rightarrow> nat \<Rightarrow> nat list" where
  "activeRewardsOf e c = filter (\<lambda>r. isActive (rewards (rewardNFT e) r)
        \<and> claimTokenId (rewards (rewardNFT e) r) = c)
     [0..<rw_tokenIdCounter (rewardNFT e)]"

fun registrarOp :: "Op \<Rightarrow> bool" where
  "registrarOp (Pause tokenId) = True"
| "registrarOp (Unpause tokenId) = True"
| "registrarOp (MintReward to claimId pid bp) = True"
| "registrarOp (RewardBurn tokenId) = True"
| "registrarOp op = False"

definition stakeRun :: "(address \<times> uint256 \<times> Op) list \<Rightarrow> bool" where
  "stakeRun ts = list_all (\<lambda>t. \<not> registrarOp (snd (snd t))) ts"

text \<open>The invariant of the stake manager: every active reward has an allocated id; a
  claim is Staked exactly when the stake manager records it as staked; a claim recorded
  as staked exists and has one active reward; any other claim has none.\<close>

definition pairingInv :: "Engine \<Rightarrow> bool" where
  "pairingInv e =
     ((\<forall>r. isActive (rewards (rewardNFT e) r) \<longrightarrow> r < rw_tokenIdCounter (rewardNFT e))
      \<and> (\<forall>c. (status (claims (claimSBT e) c) = Staked) = isStaked (stakes (stakeManager e) c))
      \<and> (\<forall>c. isStaked (stakes (stakeManager e) c) \<longrightarrow>
             erc721_exists (sbt_owners (claimSBT e)) c \<and> length (activeRewardsOf e c) = 1)
      \<and> (\<forall>c. \<not> isStaked (stakes (stakeManager e) c) \<longrightarrow> activeRewardsOf e c = []))"

text \<open>An engine whose claim registry is still owned by its deployer, account 1 (the
  stake manager is at address 2): the claim 0 is minted for the verified payment
  \<open>tx1\<close>, and the deployer pauses it.\<close>

definition pausedByOwner :: Engine where
  "pausedByOwner = run demoCrypto
     [(3, 0, VerifyXRPLPayment ''tx1'' 20 4 25000 0 0),
      (3, 1, ProcessPayment 10 25000 ''tx1'' 62),
      (1, 2, Pause 0)]
     (deploy 1 2 3 4 1 100000 (\<lambda>_. 0))"

text \<open>Stakes, a burn and a transfer of a reward on the funded project.\<close>

definition stakedAndBurned :: "(address \<times> uint256 \<times> Op) list" where
  "stakedAndBurned =
     [(3, 0, BatchVerifyXRPLPayments [''tx0'', ''tx1'', ''tx2''] [20, 21, 22] [4, 4, 4]
               [2000, 3000, 5000] [0, 0, 0] [0, 0, 0]),
      (3, 1, ProcessPayment 10 2000 ''tx0'' 62),
      (3, 2, ProcessPayment 11 3000 ''tx1'' 62),
      (3, 3, ProcessPayment 12 5000 ''tx2'' 62),
      (10, 5, StakeAndMintReward 0),
      (11, 6, StakeAndMintReward 1),
      (11, 7, BurnReward 1),
      (10, 8, RewardTransferFrom 10 12 0)]"

definition afterStakes :: Engine where
  "afterStakes = run demoCrypto stakedAndBurned (deploy 2 2 3 4 1 10000 (\<lambda>_. 0))"

text \<open>Modelled from the spec: the operations of the engine with the administrative
  status setter of the registry added. \<open>updateClaimStatus\<close> is declared in the ABI of
  \<open>lib/contracts.ts\<close> and its body is missing from the source of \<open>ClaimSBT\<close>, so it is
  not among the operations \<open>Op\<close>; \<open>AdminOp\<close> adds it as one more external call of the
  registry, beside \<open>pause\<close> and \<open>unpause\<close>.\<close>

datatype AdminOp =
    SourceOp Op
  | UpdateClaimStatus nat ClaimStatus

text \<open>Modelled from the spec: one external call of \<open>AdminOp\<close>. A call of the source
  runs as in \<open>exec\<close>; \<open>updateClaimStatus\<close> runs on the registry with the caller as
  \<open>msg.sender\<close>.\<close>

primrec execAdmin :: "crypto \<Rightarrow> address \<Rightarrow> uint256 \<Rightarrow> AdminOp \<Rightarrow> Engine \<Rightarrow> error + Engine" where
  "execAdmin cr caller now (SourceOp op) e = exec cr caller now op e"
| "execAdmin cr caller now (UpdateClaimStatus tokenId newStatus) e =
     inClaimSBT e (updateClaimStatus caller tokenId newStatus (claimSBT e))"

text \<open>Modelled from the spec: a transaction of \<open>AdminOp\<close>; a failed call leaves the
  state as it was, as in \<open>call\<close>.\<close>

definition callAdmin :: "crypto \<Rightarrow> address \<times> uint256 \<times> AdminOp \<Rightarrow> Engine \<Rightarrow> Engine" where
  "callAdmin cr t e =
     (case execAdmin cr (fst t) (fst (snd t)) (snd (snd t)) e of Inl err \<Rightarrow> e | Inr e' \<Rightarrow> e')"

text \<open>Modelled from the spec: a sequence of transactions of \<open>AdminOp\<close>, as in \<open>run\<close>.\<close>

definition runAdmin :: "crypto \<Rightarrow> (address \<times> uint256 \<times> AdminOp) list \<Rightarrow> Engine \<Rightarrow> Engine" where
  "runAdmin cr ts e = foldl (\<lambda>e' t. callAdmin cr t e') e ts"






section \<open>Shared facts about transactions\<close>

lemmas lift_defs = inClaimSBT_def inRewardNFT_def inVault_def inOracle_def dropResult_def

lemma call_cases:
  "(exec cr caller now op e = Inr (call cr (caller, now, op) e))
   \<or> ((\<exists>err. exec cr caller now op e = Inl err) \<and> call cr (caller, now, op) e = e)"
  by (cases "exec cr caller now op e") (simp_all add: call_def)

lemma run_Nil [simp]: "run cr [] e = e"
  by (simp add: run_def)

lemma run_Cons [simp]: "run cr (t # ts) e = run cr ts (call cr t e)"
  by (simp add: run_def)

text \<open>A property that every successful external call (of the kind \<open>Q\<close>) preserves
  holds along every run (of calls of that kind).\<close>

lemma run_invariant_where:
  assumes "P e"
    and "list_all (\<lambda>t. Q (snd (snd t))) ts"
    and "\<And>caller now op e e'. P e \<Longrightarrow> Q op \<Longrightarrow> exec cr caller now op e = Inr e' \<Longrightarrow> P e'"
  shows "P (run cr ts e)"
  using assms(1,2)
proof (induction ts arbitrary: e)
  case Nil
  then show ?case by simp
next
  case (Cons t ts)
  obtain caller now op where t: "t = (caller, now, op)"
    by (cases t) auto
  have "Q op" and rest: "list_all (\<lambda>t. Q (snd (snd t))) ts"
    using Cons.prems(2) t by simp_all
  then have "P (call cr t e)"
    using call_cases[of cr caller now op e] Cons.prems(1) assms(3) t by metis
  then show ?case
    using Cons.IH rest by simp
qed

lemma run_invariant:
  assumes "P e"
    and "\<And>caller now op e e'. P e \<Longrightarrow> exec cr caller now op e = Inr e' \<Longrightarrow> P e'"
  shows "P (run cr ts e)"
  by (rule run_invariant_where[where Q = "\<lambda>_. True"])
     (use assms in \<open>auto simp: list_all_iff\<close>)

text \<open>The definitions that a concrete run unfolds to.\<close>

lemmas eval_defs = demoCrypto_def deploy_def newClaimSBT_def newRewardNFT_def
  newStakeManager_def newProjectVault_def newOracleAdapter_def call_def lift_defs
  batchVerifyXRPLPayments_def batchVerifyStep_def processPayment_def
  isXRPLPaymentVerified_def mintClaim_def erc721_mint_def erc721_exists_def
  erc721_ownerOf_def uint256_ok_def addRevenue_def noProof_def noClaim_def
  distributeRevenue_def getProjectClaims_def getClaimData_def erc20_transfer_def

subsection \<open>The loops of a distribution\<close>

lemma sumRevenue_total:
  "sumRevenue xs acc = Inr t \<Longrightarrow> t = acc + sum_list (map re_amount xs)"
proof (induction xs arbitrary: acc)
  case Nil
  then show ?case by simp
next
  case (Cons x xs)
  from Cons.prems have "sumRevenue xs (acc + re_amount x) = Inr t"
    by (simp split: if_splits)
  from Cons.IH[OF this] show ?case by simp
qed

lemma sumActive_total:
  "sumActive sbt ts n b = Inr (n', b') \<Longrightarrow>
     n' = n + length (filter (\<lambda>t. status (claims sbt t) = Active) ts)
     \<and> b' = b + sum_list (map (\<lambda>t. basisPoints (claims sbt t))
                  (filter (\<lambda>t. status (claims sbt t) = Active) ts))"
proof (induction ts arbitrary: n b)
  case Nil
  then show ?case by simp
next
  case (Cons t ts)
  show ?case
  proof (cases "status (claims sbt t) = Active")
    case True
    with Cons.prems have
      "sumActive sbt ts (n + 1) (b + basisPoints (claims sbt t)) = Inr (n', b')"
      by (simp add: getClaimData_def split: if_splits)
    from Cons.IH[OF this] True show ?thesis by simp
  next
    case False
    with Cons.prems have "sumActive sbt ts n b = Inr (n', b')"
      by (simp add: getClaimData_def split: if_splits)
    from Cons.IH[OF this] False show ?thesis by simp
  qed
qed

lemma erc20_transfer_other:
  "erc20_transfer bal payer to amount = Inr bal' \<Longrightarrow> a \<noteq> payer \<Longrightarrow>
     bal' a = (if a = to then bal a + amount else bal a)"
  by (auto simp: erc20_transfer_def Let_def split: if_splits)

lemma payClaims_balance:
  "payClaims sbt payer T B ts bal = Inr bal' \<Longrightarrow> a \<noteq> payer \<Longrightarrow>
     bal' a = bal a + sum_list (map (\<lambda>t. T * basisPoints (claims sbt t) div B)
                (filter (\<lambda>t. sbt_owners sbt t = a)
                   (filter (\<lambda>t. status (claims sbt t) = Active) ts)))"
proof (induction ts arbitrary: bal)
  case Nil
  then show ?case by simp
next
  case (Cons t ts)
  show ?case
  proof (cases "status (claims sbt t) = Active
                 \<and> 0 < T * basisPoints (claims sbt t) div B")
    case True
    with Cons.prems(1) obtain bal1 where
      tr: "erc20_transfer bal payer (sbt_owners sbt t) (T * basisPoints (claims sbt t) div B)
             = Inr bal1"
      and rest: "payClaims sbt payer T B ts bal1 = Inr bal'"
      by (auto simp: getClaimData_def erc721_ownerOf_def Let_def split: if_splits sum.splits)
    show ?thesis
      using Cons.IH[OF rest Cons.prems(2)] erc20_transfer_other[OF tr Cons.prems(2)] True
      by simp
  next
    case False
    with Cons.prems(1) have rest: "payClaims sbt payer T B ts bal = Inr bal'"
      by (auto simp: getClaimData_def Let_def split: if_splits sum.splits)
    show ?thesis
      using Cons.IH[OF rest Cons.prems(2)] False by auto
  qed
qed

text \<open>What a successful distribution computes and leaves behind.\<close>

lemma distributeRevenue_success:
  assumes "distributeRevenue caller e = Inr e'"
  shows "\<exists>bal'. payClaims (claimSBT e) (pv_address (vault e)) (pendingTotal (vault e))
             (totalShare e) (projectClaims (claimSBT e) (p_projectId (project (vault e))))
             (flareToken e) = Inr bal'
          \<and> e' = e\<lparr>flareToken := bal',
                   vault := (vault e)\<lparr>revenueEntries := [],
                     pv_events := pv_events (vault e) @
                       [RevenueDistributed (p_projectId (project (vault e)))
                          (pendingTotal (vault e)) (length (activeClaimIds e))]\<rparr>\<rparr>
          \<and> caller = pv_owner (vault e) \<and> 0 < pendingTotal (vault e)
          \<and> activeClaimIds e \<noteq> []"
proof -
  from assms obtain T n B bal' where
    own: "caller = pv_owner (vault e)"
    and T: "sumRevenue (revenueEntries (vault e)) 0 = Inr T" and Tpos: "0 < T"
    and nB: "sumActive (claimSBT e)
               (projectClaims (claimSBT e) (p_projectId (project (vault e)))) 0 0 = Inr (n, B)"
    and npos: "0 < n"
    and pay: "payClaims (claimSBT e) (pv_address (vault e)) T B
                (projectClaims (claimSBT e) (p_projectId (project (vault e))))
                (flareToken e) = Inr bal'"
    and e': "e' = e\<lparr>flareToken := bal',
                   vault := (vault e)\<lparr>revenueEntries := [],
                     pv_events := pv_events (vault e) @
                       [RevenueDistributed (p_projectId (project (vault e))) T n]\<rparr>\<rparr>"
    by (auto simp: distributeRevenue_def getProjectClaims_def Let_def
        split: if_splits sum.splits prod.splits)
  have T': "T = pendingTotal (vault e)"
    using sumRevenue_total[OF T] by (simp add: pendingTotal_def)
  have "n = length (activeClaimIds e)" and "B = totalShare e"
    using sumActive_total[OF nB] by (simp_all add: activeClaimIds_def totalShare_def)
  then show ?thesis
    using own T' Tpos npos pay e' by auto
qed

subsection \<open>A successful payment intake\<close>

lemma processPayment_success:
  assumes "processPayment cr caller now investor xrpAmount xrplTxHash xrpPrice e = Inr e'"
  shows "caller = pv_owner (vault e) \<and> p_isActive (project (vault e))
     \<and> \<not> processedPayments (vault e) (keccak256 cr xrplTxHash)
     \<and> 0 < xrpAmount \<and> isXRPLPaymentVerified (oracleAdapter e) xrplTxHash
     \<and> uint256_ok (xrpAmount * 10000) \<and> totalFunding (project (vault e)) \<noteq> 0
     \<and> 0 < xrpAmount * 10000 div totalFunding (project (vault e))
     \<and> investor \<noteq> 0
     \<and> e' = e\<lparr>claimSBT := (claimSBT e)\<lparr>
                 sbt_tokenIdCounter := sbt_tokenIdCounter (claimSBT e) + 1,
                 sbt_owners := (sbt_owners (claimSBT e))(sbt_tokenIdCounter (claimSBT e) := investor),
                 claims := (claims (claimSBT e))(sbt_tokenIdCounter (claimSBT e) :=
                   \<lparr>projectId = p_projectId (project (vault e)),
                    basisPoints = xrpAmount * 10000 div totalFunding (project (vault e)),
                    status = Active, joinPrice = xrpPrice, xrplSourceTx = xrplTxHash,
                    timestamp = now\<rparr>),
                 userClaims := (userClaims (claimSBT e))(investor :=
                   userClaims (claimSBT e) investor @ [sbt_tokenIdCounter (claimSBT e)]),
                 projectClaims := (projectClaims (claimSBT e))(p_projectId (project (vault e)) :=
                   projectClaims (claimSBT e) (p_projectId (project (vault e)))
                     @ [sbt_tokenIdCounter (claimSBT e)])\<rparr>,
               vault := (vault e)\<lparr>
                 project := (project (vault e))\<lparr>totalRaised :=
                   totalRaised (project (vault e)) + xrpAmount\<rparr>,
                 userContributions := (userContributions (vault e))(investor :=
                   userContributions (vault e) investor + xrpAmount),
                 processedPayments := (processedPayments (vault e))
                   (keccak256 cr xrplTxHash := True),
                 pv_events := pv_events (vault e) @
                   [PaymentProcessed investor xrpAmount
                      (xrpAmount * 10000 div totalFunding (project (vault e))) xrplTxHash]\<rparr>\<rparr>"
  using assms
  by (auto simp: processPayment_def mintClaim_def erc721_mint_def Let_def
      split: if_splits sum.splits prod.splits)

subsection \<open>A successful stake, a successful burn\<close>

text \<open>What a successful stake and a successful burn do.\<close>

lemma stakeAndMintReward_success:
  assumes "stakeAndMintReward caller now c e = Inr e'"
  shows "erc721_exists (sbt_owners (claimSBT e)) c
     \<and> sbt_owners (claimSBT e) c = caller
     \<and> \<not> isStaked (stakes (stakeManager e) c)
     \<and> status (claims (claimSBT e) c) = Active
     \<and> claims (claimSBT e') = (claims (claimSBT e))
           (c := (claims (claimSBT e) c)\<lparr>status := Staked\<rparr>)
     \<and> sbt_owners (claimSBT e') = sbt_owners (claimSBT e)
     \<and> stakes (stakeManager e') = (stakes (stakeManager e))(c :=
           \<lparr>si_claimTokenId = c, staker = caller, stakeTimestamp = now, isStaked = True\<rparr>)
     \<and> rw_tokenIdCounter (rewardNFT e') = rw_tokenIdCounter (rewardNFT e) + 1
     \<and> rewards (rewardNFT e') = (rewards (rewardNFT e))(rw_tokenIdCounter (rewardNFT e) :=
           \<lparr>claimTokenId = c, rd_projectId = projectId (claims (claimSBT e) c),
            rd_basisPoints = basisPoints (claims (claimSBT e) c), mintTimestamp = now,
            isActive = True\<rparr>)"
  using assms
  by (auto simp: stakeAndMintReward_def erc721_ownerOf_def erc721_exists_def getClaimData_def
      pause_def mintReward_def erc721_mint_def Let_def
      split: if_splits sum.splits prod.splits)

lemma burnReward_success:
  assumes "burnReward caller r e = Inr e'"
  shows "isActive (rewards (rewardNFT e) r)
     \<and> claimTokenId (rewards (rewardNFT e) r) \<noteq> 0
     \<and> erc721_exists (sbt_owners (claimSBT e)) (claimTokenId (rewards (rewardNFT e) r))
     \<and> claims (claimSBT e') = (claims (claimSBT e))
           (claimTokenId (rewards (rewardNFT e) r) :=
              (claims (claimSBT e) (claimTokenId (rewards (rewardNFT e) r)))\<lparr>status := Active\<rparr>)
     \<and> sbt_owners (claimSBT e') = sbt_owners (claimSBT e)
     \<and> stakes (stakeManager e') = (stakes (stakeManager e))
           (claimTokenId (rewards (rewardNFT e) r) :=
              (stakes (stakeManager e) (claimTokenId (rewards (rewardNFT e) r)))
                \<lparr>isStaked := False\<rparr>)
     \<and> rw_tokenIdCounter (rewardNFT e') = rw_tokenIdCounter (rewardNFT e)
     \<and> rewards (rewardNFT e') = (rewards (rewardNFT e))
           (r := (rewards (rewardNFT e) r)\<lparr>isActive := False\<rparr>)"
  using assms
  by (auto simp: burnReward_def erc721_ownerOf_def erc721_exists_def claimOf_def
      RewardNFT_burnReward_def unpause_def Let_def
      split: if_splits sum.splits prod.splits)

section \<open>Payment proofs: a retry is rejected, a batch skips\<close>

lemma firstIndex_new:
  "n < length xs \<Longrightarrow> xs ! n \<notin> set (take n xs) \<Longrightarrow> firstIndex xs (xs ! n) = n"
proof (induction xs arbitrary: n)
  case Nil
  then show ?case by simp
next
  case (Cons y ys)
  then show ?case by (cases n) auto
qed

text \<open>The loop of the batch after \<open>n\<close> rounds: a reference that was verified before the
  batch keeps its proof, a reference among the first \<open>n\<close> entries has the proof of its
  first entry, every other reference is untouched.\<close>

lemma batch_prefix:
  "n \<le> length txHashes \<Longrightarrow>
   foldl (batchVerifyStep txHashes senders recipients amounts timestamps blockNumbers)
     proofs [0..<n] r =
     (if pp_verified (proofs r) then proofs r
      else if r \<in> set (take n txHashes)
        then batchProof txHashes senders recipients amounts timestamps blockNumbers
               (firstIndex txHashes r)
        else proofs r)"
proof (induction n arbitrary: r)
  case 0
  then show ?case by simp
next
  case (Suc n)
  then have n: "n < length txHashes" by simp
  have tk: "take (Suc n) txHashes = take n txHashes @ [txHashes ! n]"
    using n by (simp add: take_Suc_conv_app_nth)
  show ?case
    using Suc.IH[of r] Suc.IH[of "txHashes ! n"] n firstIndex_new[OF n]
    by (auto simp: tk batchVerifyStep_def batchProof_def)
qed

text \<open>
  C8. For every external transaction reference: \<open>verifyXRPLPayment\<close>, called by the
  owner, fails with AlreadyVerified when a verified proof is stored for the reference,
  and otherwise stores the one verified proof for it and returns true. The batch
  variant, called by the owner with lists of equal length, never fails: it keeps the
  proof of every reference that was verified already, stores a verified proof (that of
  the reference's first entry in the batch) for every other reference of the batch, and
  touches nothing else.
\<close>

theorem verifyXRPLPayment_rejects_batch_skips:
  "(caller = oa_owner oa \<and> pp_verified (xrplPaymentProofs oa txHash) \<longrightarrow>
      verifyXRPLPayment caller txHash sender recipient amount ts blockNumber oa
        = Inl AlreadyVerified)
   \<and> (caller = oa_owner oa \<and> \<not> pp_verified (xrplPaymentProofs oa txHash) \<longrightarrow>
      verifyXRPLPayment caller txHash sender recipient amount ts blockNumber oa =
        Inr (True, oa\<lparr>xrplPaymentProofs := (xrplPaymentProofs oa)(txHash :=
           \<lparr>pp_txHash = txHash, pp_sender = sender, pp_recipient = recipient,
            pp_amount = amount, pp_timestamp = ts, pp_blockNumber = blockNumber,
            pp_verified = True\<rparr>)\<rparr>))
   \<and> (caller = oa_owner oa \<and> length senders = length txHashes
        \<and> length recipients = length txHashes \<and> length amounts = length txHashes
        \<and> length timestamps = length txHashes \<and> length blockNumbers = length txHashes \<longrightarrow>
      (\<exists>oa'. batchVerifyXRPLPayments caller txHashes senders recipients amounts timestamps
                blockNumbers oa = Inr oa'
         \<and> oa_owner oa' = oa_owner oa
         \<and> authorizedVerifiers oa' = authorizedVerifiers oa
         \<and> milestoneAttestations oa' = milestoneAttestations oa
         \<and> (\<forall>r. xrplPaymentProofs oa' r =
               (if pp_verified (xrplPaymentProofs oa r) then xrplPaymentProofs oa r
                else if r \<in> set txHashes
                  then batchProof txHashes senders recipients amounts timestamps blockNumbers
                         (firstIndex txHashes r)
                  else xrplPaymentProofs oa r))))"
  using batch_prefix[of "length txHashes" txHashes senders recipients amounts timestamps
      blockNumbers "xrplPaymentProofs oa"]
  by (simp add: verifyXRPLPayment_def batchVerifyXRPLPayments_def)

theorem verifyXRPLPayment_rejects_batch_skips_witness:
  "verifyXRPLPayment 1 ''tx1'' 2 3 100 5 6 oracleWithTx1 = Inl AlreadyVerified
   \<and> (\<exists>oa'. verifyXRPLPayment 1 ''tx2'' 4 3 7 8 9 oracleWithTx1 = Inr (True, oa')
          \<and> pp_verified (xrplPaymentProofs oa' ''tx2'')
          \<and> pp_amount (xrplPaymentProofs oa' ''tx2'') = 7)
   \<and> (\<exists>oa'. batchVerifyXRPLPayments 1 [''tx1'', ''tx2'', ''tx2''] [20, 21, 22] [3, 3, 3]
                [51, 52, 53] [8, 8, 8] [9, 9, 9] oracleWithTx1 = Inr oa'
          \<and> pp_amount (xrplPaymentProofs oa' ''tx1'') = 100
          \<and> pp_amount (xrplPaymentProofs oa' ''tx2'') = 52
          \<and> \<not> pp_verified (xrplPaymentProofs oa' ''tx3''))"
proof -
  have own: "(1::nat) = oa_owner oracleWithTx1"
    by (simp add: oracleWithTx1_def newOracleAdapter_def)
  have v1: "pp_verified (xrplPaymentProofs oracleWithTx1 ''tx1'')"
    by (simp add: oracleWithTx1_def)
  have v2: "\<not> pp_verified (xrplPaymentProofs oracleWithTx1 ''tx2'')"
    by (simp add: oracleWithTx1_def noProof_def)
  have v3: "\<not> pp_verified (xrplPaymentProofs oracleWithTx1 ''tx3'')"
    by (simp add: oracleWithTx1_def noProof_def)
  note a = verifyXRPLPayment_rejects_batch_skips[where caller = 1 and oa = oracleWithTx1
      and txHash = "''tx1''" and sender = 2 and recipient = 3 and amount = 100 and ts = 5
      and blockNumber = 6 and txHashes = "[]" and senders = "[]" and recipients = "[]"
      and amounts = "[]" and timestamps = "[]" and blockNumbers = "[]"]
  note b = verifyXRPLPayment_rejects_batch_skips[where caller = 1 and oa = oracleWithTx1
      and txHash = "''tx2''" and sender = 4 and recipient = 3 and amount = 7 and ts = 8
      and blockNumber = 9 and txHashes = "[''tx1'', ''tx2'', ''tx2'']"
      and senders = "[20, 21, 22]" and recipients = "[3, 3, 3]"
      and amounts = "[51, 52, 53]" and timestamps = "[8, 8, 8]"
      and blockNumbers = "[9, 9, 9]"]
  have p1: "verifyXRPLPayment 1 ''tx1'' 2 3 100 5 6 oracleWithTx1 = Inl AlreadyVerified"
    using a own v1 by blast
  have p2: "\<exists>oa'. verifyXRPLPayment 1 ''tx2'' 4 3 7 8 9 oracleWithTx1 = Inr (True, oa')
          \<and> pp_verified (xrplPaymentProofs oa' ''tx2'')
          \<and> pp_amount (xrplPaymentProofs oa' ''tx2'') = 7"
    using b own v2 by simp
  from b own obtain oa' where
    r: "batchVerifyXRPLPayments 1 [''tx1'', ''tx2'', ''tx2''] [20, 21, 22] [3, 3, 3]
          [51, 52, 53] [8, 8, 8] [9, 9, 9] oracleWithTx1 = Inr oa'"
    and q: "\<forall>r. xrplPaymentProofs oa' r =
               (if pp_verified (xrplPaymentProofs oracleWithTx1 r)
                then xrplPaymentProofs oracleWithTx1 r
                else if r \<in> set [''tx1'', ''tx2'', ''tx2'']
                  then batchProof [''tx1'', ''tx2'', ''tx2''] [20, 21, 22] [3, 3, 3]
                         [51, 52, 53] [8, 8, 8] [9, 9, 9]
                         (firstIndex [''tx1'', ''tx2'', ''tx2''] r)
                  else xrplPaymentProofs oracleWithTx1 r)"
    by auto
  have "pp_amount (xrplPaymentProofs oa' ''tx1'') = 100"
    using q v1 by (simp add: oracleWithTx1_def)
  moreover have "pp_amount (xrplPaymentProofs oa' ''tx2'') = 52"
    using q v2 by (simp add: batchProof_def)
  moreover have "\<not> pp_verified (xrplPaymentProofs oa' ''tx3'')"
    using q v3 by simp
  ultimately show ?thesis using p1 p2 r by blast
qed

section \<open>Reward ids start at the value that means "no reward"\<close>

text \<open>
  C10. \<open>hasActiveReward\<close> is false for every claim that the index \<open>claimToReward\<close> maps
  to 0. A fresh \<open>RewardNFT\<close> gives its first reward the token id 0: after that
  \<open>mintReward\<close> the reward 0 exists, is active and is paired with the claim, the index
  maps the claim to 0, \<open>hasActiveReward\<close> reports no active reward for the claim, and a
  second \<open>mintReward\<close> for the same claim passes the duplicate guard and creates a second
  active reward (id 1) for it.
\<close>

theorem first_reward_id_is_the_sentinel:
  "(claimToReward rn c = 0 \<longrightarrow> \<not> hasActiveReward rn c)
   \<and> (to \<noteq> 0 \<and> to' \<noteq> 0 \<longrightarrow>
       (\<exists>rn1 rn2.
          mintReward deployer now to c pid bp (newRewardNFT deployer) = Inr (0, rn1)
        \<and> isActive (rewards rn1 0) \<and> claimTokenId (rewards rn1 0) = c
        \<and> erc721_exists (rw_owners rn1) 0
        \<and> claimToReward rn1 c = 0
        \<and> \<not> hasActiveReward rn1 c
        \<and> mintReward deployer now' to' c pid' bp' rn1 = Inr (1, rn2)
        \<and> isActive (rewards rn2 0) \<and> claimTokenId (rewards rn2 0) = c
        \<and> isActive (rewards rn2 1) \<and> claimTokenId (rewards rn2 1) = c))"
  by (simp add: hasActiveReward_def mintReward_def newRewardNFT_def erc721_mint_def
      erc721_exists_def uint256_ok_def)

theorem first_reward_id_is_the_sentinel_witness:
  "claimToReward (newRewardNFT 9) 5 = 0 \<and> \<not> hasActiveReward (newRewardNFT 9) 5
   \<and> (\<exists>rn1 rn2.
          mintReward 9 100 7 5 1 2500 (newRewardNFT 9) = Inr (0, rn1)
        \<and> isActive (rewards rn1 0) \<and> claimTokenId (rewards rn1 0) = 5
        \<and> \<not> hasActiveReward rn1 5
        \<and> mintReward 9 101 8 5 1 2500 rn1 = Inr (1, rn2)
        \<and> isActive (rewards rn2 0) \<and> claimTokenId (rewards rn2 0) = 5
        \<and> isActive (rewards rn2 1) \<and> claimTokenId (rewards rn2 1) = 5)"
proof -
  have z: "claimToReward (newRewardNFT 9) 5 = 0"
    by (simp add: newRewardNFT_def)
  have nz: "(7::nat) \<noteq> 0 \<and> (8::nat) \<noteq> 0"
    by simp
  note t = first_reward_id_is_the_sentinel[where rn = "newRewardNFT 9" and c = 5 and to = 7
      and to' = 8 and deployer = 9 and now = 100 and now' = 101 and pid = 1 and pid' = 1
      and bp = 2500 and bp' = 2500]
  from t z have "\<not> hasActiveReward (newRewardNFT 9) 5" by blast
  moreover from t nz have "\<exists>rn1 rn2.
          mintReward 9 100 7 5 1 2500 (newRewardNFT 9) = Inr (0, rn1)
        \<and> isActive (rewards rn1 0) \<and> claimTokenId (rewards rn1 0) = 5
        \<and> \<not> hasActiveReward rn1 5
        \<and> mintReward 9 101 8 5 1 2500 rn1 = Inr (1, rn2)
        \<and> isActive (rewards rn2 0) \<and> claimTokenId (rewards rn2 0) = 5
        \<and> isActive (rewards rn2 1) \<and> claimTokenId (rewards rn2 1) = 5"
    by blast
  ultimately show ?thesis using z by blast
qed

section \<open>Claims are not transferable\<close>

lemma exec_keeps_claim_owner:
  assumes "exec cr caller now op e = Inr e'"
    and "erc721_exists (sbt_owners (claimSBT e)) c"
  shows "sbt_owners (claimSBT e') c = sbt_owners (claimSBT e) c"
proof (cases op)
  case (MintOrTopUp to amount)
  then show ?thesis
    using assms
    by (auto simp: lift_defs mintOrTopUp_def erc721_mint_def erc721_exists_def Let_def
        split: if_splits sum.splits)
next
  case (StakeAndMintReward claimId)
  then show ?thesis
    using assms
    by (auto simp: stakeAndMintReward_def pause_def mintReward_def Let_def
        split: if_splits sum.splits prod.splits)
next
  case (BurnReward rewardId)
  then show ?thesis
    using assms
    by (auto simp: burnReward_def unpause_def RewardNFT_burnReward_def Let_def
        split: if_splits sum.splits)
next
  case (ProcessPayment investor xrpAmount xrplTxHash xrpPrice)
  then show ?thesis
    using assms
    by (auto simp: processPayment_def mintClaim_def erc721_mint_def erc721_exists_def Let_def
        split: if_splits sum.splits prod.splits)
next
  case (UnlockMilestone milestoneIndex attHash)
  then show ?thesis
    using assms by (auto simp: unlockMilestone_def Let_def split: if_splits)
next
  case DistributeRevenue
  then show ?thesis
    using assms
    by (auto simp: distributeRevenue_def Let_def split: if_splits sum.splits prod.splits)
qed (use assms in \<open>auto simp: lift_defs pause_def unpause_def approve_def setApprovalForAll_def
      transferFrom_def safeTransferFrom_def safeTransferFromData_def
      split: if_splits sum.splits\<close>)

text \<open>
  C7. For every claim token, every caller and every argument, \<open>approve\<close>,
  \<open>setApprovalForAll\<close>, \<open>transferFrom\<close> and both \<open>safeTransferFrom\<close> of the claim
  registry fail with NonTransferable, and the transaction leaves the whole state as it
  was. Along every run of transactions of the engine, a claim that exists keeps its
  owner: only the mint of a new token writes the owner table.
\<close>

theorem claims_are_non_transferable:
  "approve caller to tokenId sbt = Inl NonTransferable
   \<and> setApprovalForAll caller operator approved sbt = Inl NonTransferable
   \<and> transferFrom caller from to tokenId sbt = Inl NonTransferable
   \<and> safeTransferFrom caller from to tokenId sbt = Inl NonTransferable
   \<and> safeTransferFromData caller from to tokenId data sbt = Inl NonTransferable
   \<and> call cr (caller, now, Approve to tokenId) e = e
   \<and> call cr (caller, now, SetApprovalForAll operator approved) e = e
   \<and> call cr (caller, now, TransferFrom from to tokenId) e = e
   \<and> call cr (caller, now, SafeTransferFrom from to tokenId) e = e
   \<and> call cr (caller, now, SafeTransferFromData from to tokenId data) e = e
   \<and> (erc721_exists (sbt_owners (claimSBT e)) c \<longrightarrow>
        sbt_owners (claimSBT (run cr ts e)) c = sbt_owners (claimSBT e) c)"
proof -
  have "erc721_exists (sbt_owners (claimSBT e)) c \<Longrightarrow>
        erc721_exists (sbt_owners (claimSBT (run cr ts e))) c
        \<and> sbt_owners (claimSBT (run cr ts e)) c = sbt_owners (claimSBT e) c"
    by (rule run_invariant[where P = "\<lambda>x. erc721_exists (sbt_owners (claimSBT x)) c
          \<and> sbt_owners (claimSBT x) c = sbt_owners (claimSBT e) c"])
       (auto simp: erc721_exists_def dest: exec_keeps_claim_owner[unfolded erc721_exists_def])
  then show ?thesis
    by (simp add: approve_def setApprovalForAll_def transferFrom_def safeTransferFrom_def
        safeTransferFromData_def call_def lift_defs)
qed

theorem claims_are_non_transferable_witness:
  "erc721_exists (sbt_owners (claimSBT (funded 2000 3000 5000 1000))) 0
   \<and> sbt_owners (claimSBT (run demoCrypto
         [(10, 9, TransferFrom 10 11 0), (10, 9, StakeAndMintReward 0),
          (3, 9, DistributeRevenue)] (funded 2000 3000 5000 1000))) 0 = 10"
proof -
  have ex: "erc721_exists (sbt_owners (claimSBT (funded 2000 3000 5000 1000))) 0"
    and ow: "sbt_owners (claimSBT (funded 2000 3000 5000 1000)) 0 = 10"
    by (simp_all add: funded_def eval_defs)
  from claims_are_non_transferable[where e = "funded 2000 3000 5000 1000" and c = 0
      and cr = demoCrypto
      and ts = "[(10, 9, TransferFrom 10 11 0), (10, 9, StakeAndMintReward 0),
          (3, 9, DistributeRevenue)]"] ex
  have "sbt_owners (claimSBT (run demoCrypto
         [(10, 9, TransferFrom 10 11 0), (10, 9, StakeAndMintReward 0),
          (3, 9, DistributeRevenue)] (funded 2000 3000 5000 1000))) 0
        = sbt_owners (claimSBT (funded 2000 3000 5000 1000)) 0"
    by blast
  then show ?thesis
    using ex ow by simp
qed

section \<open>Pro-rata distribution\<close>

lemma funded_distribute_evals:
  "distributeRevenue 3 (funded 2000 3000 5000 1000)
     = Inr (call demoCrypto (3, 5, DistributeRevenue) (funded 2000 3000 5000 1000))"
  "map (flareToken (call demoCrypto (3, 5, DistributeRevenue) (funded 2000 3000 5000 1000)))
     [10, 11, 12] = [200, 300, 500]"
  "map (flareToken (call demoCrypto (3, 5, DistributeRevenue) (funded 3333 3333 3334 10)))
     [10, 11, 12] = [3, 3, 3]"
  "map (payout (funded 2000 3000 5000 1000)) (activeClaimIds (funded 2000 3000 5000 1000))
     = [200, 300, 500]"
  "map (payout (funded 3333 3333 3334 10)) (activeClaimIds (funded 3333 3333 3334 10))
     = [3, 3, 3]"
  by (simp_all add: funded_def eval_defs payout_def activeClaimIds_def totalShare_def
      pendingTotal_def)

text \<open>
  C3. For every successful distribution, with the total the sum of the pending revenue
  entries and the total share the sum of the basis points of the project's Active
  claims, every account other than the vault itself ends with its balance raised by
  exactly the sum, over the Active claims it owns, of
  floor(total * basisPoints / totalShare), and the distribution record carries that
  total and the number of Active claims. Shares 2000, 3000, 5000 with total 1000 pay
  200, 300, 500; shares 3333, 3333, 3334 with total 10 pay 3, 3, 3.
\<close>

theorem distribution_is_pro_rata:
  "(distributeRevenue caller e = Inr e' \<longrightarrow>
      (\<forall>a. a \<noteq> pv_address (vault e) \<longrightarrow> flareToken e' a = flareToken e a + received e a)
      \<and> (\<forall>t. payout e t
             = pendingTotal (vault e) * basisPoints (claims (claimSBT e) t) div totalShare e)
      \<and> last (pv_events (vault e')) = RevenueDistributed (p_projectId (project (vault e)))
           (pendingTotal (vault e)) (length (activeClaimIds e)))
   \<and> map (payout (funded 2000 3000 5000 1000)) (activeClaimIds (funded 2000 3000 5000 1000))
       = [200, 300, 500]
   \<and> map (flareToken (call demoCrypto (3, 5, DistributeRevenue) (funded 2000 3000 5000 1000)))
       [10, 11, 12] = [200, 300, 500]
   \<and> map (payout (funded 3333 3333 3334 10)) (activeClaimIds (funded 3333 3333 3334 10))
       = [3, 3, 3]
   \<and> map (flareToken (call demoCrypto (3, 5, DistributeRevenue) (funded 3333 3333 3334 10)))
       [10, 11, 12] = [3, 3, 3]"
proof -
  have "(\<forall>a. a \<noteq> pv_address (vault e) \<longrightarrow> flareToken e' a = flareToken e a + received e a)
      \<and> last (pv_events (vault e')) = RevenueDistributed (p_projectId (project (vault e)))
           (pendingTotal (vault e)) (length (activeClaimIds e))"
    if ok: "distributeRevenue caller e = Inr e'"
  proof -
    from distributeRevenue_success[OF ok] obtain bal' where
      pay: "payClaims (claimSBT e) (pv_address (vault e)) (pendingTotal (vault e))
             (totalShare e) (projectClaims (claimSBT e) (p_projectId (project (vault e))))
             (flareToken e) = Inr bal'"
      and e': "e' = e\<lparr>flareToken := bal',
                   vault := (vault e)\<lparr>revenueEntries := [],
                     pv_events := pv_events (vault e) @
                       [RevenueDistributed (p_projectId (project (vault e)))
                          (pendingTotal (vault e)) (length (activeClaimIds e))]\<rparr>\<rparr>"
      by blast
    have "flareToken e' a = flareToken e a + received e a" if "a \<noteq> pv_address (vault e)" for a
    proof -
      have "payout e = (\<lambda>t. pendingTotal (vault e) * basisPoints (claims (claimSBT e) t)
                               div totalShare e)"
        by (rule ext) (simp add: payout_def)
      then show ?thesis
        using payClaims_balance[OF pay that] e'
        by (simp add: received_def activeClaimIds_def)
    qed
    then show ?thesis
      using e' by simp
  qed
  then show ?thesis
    using funded_distribute_evals(2-5) by (simp add: payout_def)
qed

theorem distribution_is_pro_rata_witness:
  "distributeRevenue 3 (funded 2000 3000 5000 1000)
     = Inr (call demoCrypto (3, 5, DistributeRevenue) (funded 2000 3000 5000 1000))
   \<and> 11 \<noteq> pv_address (vault (funded 2000 3000 5000 1000))
   \<and> flareToken (call demoCrypto (3, 5, DistributeRevenue) (funded 2000 3000 5000 1000)) 11
       = flareToken (funded 2000 3000 5000 1000) 11 + received (funded 2000 3000 5000 1000) 11
   \<and> received (funded 2000 3000 5000 1000) 11 = 300"
proof -
  have a: "11 \<noteq> pv_address (vault (funded 2000 3000 5000 1000))"
    by (simp add: funded_def eval_defs)
  have r: "received (funded 2000 3000 5000 1000) 11 = 300"
    by (simp add: funded_def eval_defs received_def payout_def activeClaimIds_def
        totalShare_def pendingTotal_def)
  from distribution_is_pro_rata[where caller = 3 and e = "funded 2000 3000 5000 1000"
      and e' = "call demoCrypto (3, 5, DistributeRevenue) (funded 2000 3000 5000 1000)"]
    funded_distribute_evals(1) a
  have "flareToken (call demoCrypto (3, 5, DistributeRevenue) (funded 2000 3000 5000 1000)) 11
       = flareToken (funded 2000 3000 5000 1000) 11 + received (funded 2000 3000 5000 1000) 11"
    by blast
  then show ?thesis
    using funded_distribute_evals(1) a r by blast
qed

section \<open>A distribution drains the queue\<close>

lemma addRevenues_effect:
  "pv_owner (vault e) = caller \<Longrightarrow>
     pendingTotal (vault (run cr (addRevenues caller now adds) e))
       = pendingTotal (vault e) + sum_list (map fst adds)
     \<and> pv_owner (vault (run cr (addRevenues caller now adds) e)) = caller
     \<and> project (vault (run cr (addRevenues caller now adds) e)) = project (vault e)
     \<and> claimSBT (run cr (addRevenues caller now adds) e) = claimSBT e"
proof (induction adds arbitrary: e)
  case Nil
  then show ?case by (simp add: addRevenues_def)
next
  case (Cons x adds)
  let ?e1 = "call cr (caller, now, AddRevenue (fst x) (snd x)) e"
  have step: "pv_owner (vault ?e1) = caller
      \<and> pendingTotal (vault ?e1) = pendingTotal (vault e) + fst x
      \<and> project (vault ?e1) = project (vault e) \<and> claimSBT ?e1 = claimSBT e"
    using Cons.prems
    by (simp add: call_def lift_defs addRevenue_def pendingTotal_def)
  have "run cr (addRevenues caller now (x # adds)) e = run cr (addRevenues caller now adds) ?e1"
    by (simp add: addRevenues_def)
  then show ?case
    using Cons.IH[of ?e1] step by simp
qed

text \<open>
  C5. After every successful distribution the pending queue of the project is empty:
  the whole queue is consumed by the one call. The flooring remainder is not kept
  anywhere in the queue: when revenue entries are added after it and the project is
  distributed again, the total of that later distribution is exactly the sum of the
  entries added since, and it again leaves the queue empty.
\<close>

theorem distribution_drains_queue:
  "distributeRevenue caller e = Inr e' \<longrightarrow>
     revenueEntries (vault e') = [] \<and> pendingTotal (vault e') = 0
     \<and> (\<forall>adds e''.
          distributeRevenue caller (run cr (addRevenues caller now adds) e') = Inr e'' \<longrightarrow>
            pendingTotal (vault (run cr (addRevenues caller now adds) e'))
              = sum_list (map fst adds)
            \<and> last (pv_events (vault e'')) = RevenueDistributed (p_projectId (project (vault e)))
                 (sum_list (map fst adds)) (length (activeClaimIds e))
            \<and> revenueEntries (vault e'') = [])"
proof
  assume ok: "distributeRevenue caller e = Inr e'"
  from distributeRevenue_success[OF ok] obtain bal' where
    e': "e' = e\<lparr>flareToken := bal',
                 vault := (vault e)\<lparr>revenueEntries := [],
                   pv_events := pv_events (vault e) @
                     [RevenueDistributed (p_projectId (project (vault e)))
                        (pendingTotal (vault e)) (length (activeClaimIds e))]\<rparr>\<rparr>"
    and own: "caller = pv_owner (vault e)"
    by blast
  have empty: "revenueEntries (vault e') = []" and zero: "pendingTotal (vault e') = 0"
    and ownd: "pv_owner (vault e') = caller"
    and same: "project (vault e') = project (vault e)" "claimSBT e' = claimSBT e"
    using e' own by (simp_all add: pendingTotal_def)
  have later: "pendingTotal (vault (run cr (addRevenues caller now adds) e'))
              = sum_list (map fst adds)
            \<and> last (pv_events (vault e'')) = RevenueDistributed (p_projectId (project (vault e)))
                 (sum_list (map fst adds)) (length (activeClaimIds e))
            \<and> revenueEntries (vault e'') = []"
    if okd: "distributeRevenue caller (run cr (addRevenues caller now adds) e') = Inr e''"
    for adds e''
  proof -
    let ?e2 = "run cr (addRevenues caller now adds) e'"
    note eff = addRevenues_effect[OF ownd, of cr now adds]
    have act: "activeClaimIds ?e2 = activeClaimIds e"
      using eff same by (simp add: activeClaimIds_def)
    from distributeRevenue_success[OF okd] obtain bald where
      "e'' = ?e2\<lparr>flareToken := bald,
                 vault := (vault ?e2)\<lparr>revenueEntries := [],
                   pv_events := pv_events (vault ?e2) @
                     [RevenueDistributed (p_projectId (project (vault ?e2)))
                        (pendingTotal (vault ?e2)) (length (activeClaimIds ?e2))]\<rparr>\<rparr>"
      by blast
    then show ?thesis
      using eff zero same act by simp
  qed
  show "revenueEntries (vault e') = [] \<and> pendingTotal (vault e') = 0
     \<and> (\<forall>adds e''.
          distributeRevenue caller (run cr (addRevenues caller now adds) e') = Inr e'' \<longrightarrow>
            pendingTotal (vault (run cr (addRevenues caller now adds) e'))
              = sum_list (map fst adds)
            \<and> last (pv_events (vault e'')) = RevenueDistributed (p_projectId (project (vault e)))
                 (sum_list (map fst adds)) (length (activeClaimIds e))
            \<and> revenueEntries (vault e'') = [])"
    using empty zero later by blast
qed

lemma funded_second_round:
  "distributeRevenue 3 (funded 3333 3333 3334 10)
     = Inr (call demoCrypto (3, 5, DistributeRevenue) (funded 3333 3333 3334 10))"
  "distributeRevenue 3 (run demoCrypto (addRevenues 3 6 [(20, ''streaming'')])
       (call demoCrypto (3, 5, DistributeRevenue) (funded 3333 3333 3334 10)))
     = Inr (run demoCrypto (addRevenues 3 6 [(20, ''streaming'')] @ [(3, 7, DistributeRevenue)])
         (call demoCrypto (3, 5, DistributeRevenue) (funded 3333 3333 3334 10)))"
  "flareToken (call demoCrypto (3, 5, DistributeRevenue) (funded 3333 3333 3334 10)) 4 = 51"
  by (simp_all add: funded_def eval_defs addRevenues_def)

theorem distribution_drains_queue_witness:
  "distributeRevenue 3 (funded 3333 3333 3334 10)
     = Inr (call demoCrypto (3, 5, DistributeRevenue) (funded 3333 3333 3334 10))
   \<and> revenueEntries (vault (call demoCrypto (3, 5, DistributeRevenue)
        (funded 3333 3333 3334 10))) = []
   \<and> flareToken (call demoCrypto (3, 5, DistributeRevenue) (funded 3333 3333 3334 10)) 4 = 51
   \<and> last (pv_events (vault (run demoCrypto
          (addRevenues 3 6 [(20, ''streaming'')] @ [(3, 7, DistributeRevenue)])
          (call demoCrypto (3, 5, DistributeRevenue) (funded 3333 3333 3334 10)))))
       = RevenueDistributed (p_projectId (project (vault (funded 3333 3333 3334 10)))) 20
           (length (activeClaimIds (funded 3333 3333 3334 10)))"
proof -
  note t = distribution_drains_queue[where caller = 3 and e = "funded 3333 3333 3334 10"
      and e' = "call demoCrypto (3, 5, DistributeRevenue) (funded 3333 3333 3334 10)"
      and cr = demoCrypto and now = 6]
  from t funded_second_round(1)
  have a: "revenueEntries (vault (call demoCrypto (3, 5, DistributeRevenue)
        (funded 3333 3333 3334 10))) = []"
    by blast
  from t funded_second_round(1) funded_second_round(2)
  have "last (pv_events (vault (run demoCrypto
          (addRevenues 3 6 [(20, ''streaming'')] @ [(3, 7, DistributeRevenue)])
          (call demoCrypto (3, 5, DistributeRevenue) (funded 3333 3333 3334 10)))))
       = RevenueDistributed (p_projectId (project (vault (funded 3333 3333 3334 10))))
           (sum_list (map fst [(20::nat, ''streaming'')]))
           (length (activeClaimIds (funded 3333 3333 3334 10)))"
    by blast
  then show ?thesis
    using a funded_second_round(1) funded_second_round(3) by simp
qed

section \<open>The share of a claim minted by payment intake\<close>

lemma share_bound_iff:
  fixes a f :: nat
  assumes "f \<noteq> 0"
  shows "a * 10000 div f \<le> 10000 \<longleftrightarrow> a * 10000 < 10001 * f"
proof -
  have "a * 10000 div f < 10001 \<longleftrightarrow> a * 10000 < 10001 * f"
    using assms by (simp add: div_less_iff_less_mult)
  then show ?thesis by auto
qed

lemma overfunded_evals:
  "sbt_tokenIdCounter (claimSBT overfunded) = 1"
  "basisPoints (claims (claimSBT overfunded) 0) = 25000"
  "pv_events (vault overfunded) = [PaymentProcessed 10 250000 25000 ''tx9'']"
  by (simp_all add: overfunded_def eval_defs verifyXRPLPayment_def)

text \<open>
  C9 as stated fails: a verified payment of 250000 to a project whose funding target is
  100000 is accepted, and the claim that \<open>processPayment\<close> mints for it carries
  25000 basis points, more than 10000.
\<close>

theorem claim_share_above_10000_counterexample:
  "pv_events (vault overfunded) = [PaymentProcessed 10 250000 25000 ''tx9'']
   \<and> sbt_tokenIdCounter (claimSBT overfunded) = 1
   \<and> \<not> basisPoints (claims (claimSBT overfunded) 0) \<le> 10000"
  using overfunded_evals by simp

text \<open>
  C9 (amended). A claim created by \<open>processPayment\<close> has exactly
  floor(amount * 10000 / totalFunding) basis points (the payment record carries the same
  number), and at least 1: with every earlier
  check passed and that quotient 0, the call fails with ContributionTooSmall. No upper
  bound is enforced: the share is at most 10000 exactly when
  amount * 10000 < 10001 * totalFunding (so whenever amount is at most totalFunding), and
  it exceeds 10000 for a larger payment. No bound is enforced on the sum of the basis
  points of a project either: three payments of 6000 to a target of 10000 give a total
  share of 18000.
\<close>

theorem claim_share_is_floor_and_positive:
  "(processPayment cr caller now investor xrpAmount xrplTxHash xrpPrice e = Inr e' \<longrightarrow>
      sbt_tokenIdCounter (claimSBT e') = sbt_tokenIdCounter (claimSBT e) + 1
      \<and> basisPoints (claims (claimSBT e') (sbt_tokenIdCounter (claimSBT e)))
          = xrpAmount * 10000 div totalFunding (project (vault e))
      \<and> last (pv_events (vault e')) = PaymentProcessed investor xrpAmount
           (xrpAmount * 10000 div totalFunding (project (vault e))) xrplTxHash
      \<and> 1 \<le> basisPoints (claims (claimSBT e') (sbt_tokenIdCounter (claimSBT e)))
      \<and> (basisPoints (claims (claimSBT e') (sbt_tokenIdCounter (claimSBT e))) \<le> 10000
           \<longleftrightarrow> xrpAmount * 10000 < 10001 * totalFunding (project (vault e)))
      \<and> (xrpAmount \<le> totalFunding (project (vault e)) \<longrightarrow>
           basisPoints (claims (claimSBT e') (sbt_tokenIdCounter (claimSBT e))) \<le> 10000))
   \<and> (caller = pv_owner (vault e) \<and> p_isActive (project (vault e))
        \<and> \<not> processedPayments (vault e) (keccak256 cr xrplTxHash)
        \<and> 0 < xrpAmount \<and> isXRPLPaymentVerified (oracleAdapter e) xrplTxHash
        \<and> uint256_ok (xrpAmount * 10000) \<and> totalFunding (project (vault e)) \<noteq> 0
        \<and> xrpAmount * 10000 div totalFunding (project (vault e)) = 0 \<longrightarrow>
      processPayment cr caller now investor xrpAmount xrplTxHash xrpPrice e
        = Inl ContributionTooSmall)
   \<and> totalShare (funded 6000 6000 6000 10) = 18000"
proof -
  have a: "sbt_tokenIdCounter (claimSBT e') = sbt_tokenIdCounter (claimSBT e) + 1
      \<and> basisPoints (claims (claimSBT e') (sbt_tokenIdCounter (claimSBT e)))
          = xrpAmount * 10000 div totalFunding (project (vault e))
      \<and> last (pv_events (vault e')) = PaymentProcessed investor xrpAmount
           (xrpAmount * 10000 div totalFunding (project (vault e))) xrplTxHash
      \<and> 1 \<le> basisPoints (claims (claimSBT e') (sbt_tokenIdCounter (claimSBT e)))
      \<and> (basisPoints (claims (claimSBT e') (sbt_tokenIdCounter (claimSBT e))) \<le> 10000
           \<longleftrightarrow> xrpAmount * 10000 < 10001 * totalFunding (project (vault e)))
      \<and> (xrpAmount \<le> totalFunding (project (vault e)) \<longrightarrow>
           basisPoints (claims (claimSBT e') (sbt_tokenIdCounter (claimSBT e))) \<le> 10000)"
    if ok: "processPayment cr caller now investor xrpAmount xrplTxHash xrpPrice e = Inr e'"
  proof -
    note s = processPayment_success[OF ok]
    have bp: "basisPoints (claims (claimSBT e') (sbt_tokenIdCounter (claimSBT e)))
          = xrpAmount * 10000 div totalFunding (project (vault e))"
      and cnt: "sbt_tokenIdCounter (claimSBT e') = sbt_tokenIdCounter (claimSBT e) + 1"
      using s by simp_all
    have ev: "last (pv_events (vault e')) = PaymentProcessed investor xrpAmount
           (xrpAmount * 10000 div totalFunding (project (vault e))) xrplTxHash"
      using s by simp
    have f: "totalFunding (project (vault e)) \<noteq> 0"
      and pos: "0 < xrpAmount * 10000 div totalFunding (project (vault e))"
      using s by simp_all
    have "xrpAmount \<le> totalFunding (project (vault e)) \<Longrightarrow>
            xrpAmount * 10000 < 10001 * totalFunding (project (vault e))"
      using f by simp
    then show ?thesis
      using bp cnt ev pos share_bound_iff[OF f, of xrpAmount] by simp
  qed
  have b: "totalShare (funded 6000 6000 6000 10) = 18000"
    by (simp add: funded_def eval_defs totalShare_def activeClaimIds_def)
  have c: "caller = pv_owner (vault e) \<and> p_isActive (project (vault e))
        \<and> \<not> processedPayments (vault e) (keccak256 cr xrplTxHash)
        \<and> 0 < xrpAmount \<and> isXRPLPaymentVerified (oracleAdapter e) xrplTxHash
        \<and> uint256_ok (xrpAmount * 10000) \<and> totalFunding (project (vault e)) \<noteq> 0
        \<and> xrpAmount * 10000 div totalFunding (project (vault e)) = 0 \<longrightarrow>
      processPayment cr caller now investor xrpAmount xrplTxHash xrpPrice e
        = Inl ContributionTooSmall"
    by (simp add: processPayment_def Let_def)
  show ?thesis
    using a b c by blast
qed

lemma tx1Verified_evals:
  "processPayment demoCrypto 3 1 10 25000 ''tx1'' 62 tx1Verified
     = Inr (call demoCrypto (3, 1, ProcessPayment 10 25000 ''tx1'' 62) tx1Verified)"
  "sbt_tokenIdCounter (claimSBT tx1Verified) = 0"
  "totalFunding (project (vault tx1Verified)) = 100000"
  "processPayment demoCrypto 3 1 10 7 ''tx1'' 62 tx1Verified = Inl ContributionTooSmall"
  by (simp_all add: tx1Verified_def eval_defs verifyXRPLPayment_def)

theorem claim_share_is_floor_and_positive_witness:
  "processPayment demoCrypto 3 1 10 25000 ''tx1'' 62 tx1Verified
     = Inr (call demoCrypto (3, 1, ProcessPayment 10 25000 ''tx1'' 62) tx1Verified)
   \<and> basisPoints (claims (claimSBT
        (call demoCrypto (3, 1, ProcessPayment 10 25000 ''tx1'' 62) tx1Verified)) 0) = 2500
   \<and> processPayment demoCrypto 3 1 10 7 ''tx1'' 62 tx1Verified = Inl ContributionTooSmall"
proof -
  from claim_share_is_floor_and_positive[where cr = demoCrypto and caller = 3 and now = 1
      and investor = 10 and xrpAmount = 25000 and xrplTxHash = "''tx1''" and xrpPrice = 62
      and e = tx1Verified
      and e' = "call demoCrypto (3, 1, ProcessPayment 10 25000 ''tx1'' 62) tx1Verified"]
    tx1Verified_evals(1)
  have "basisPoints (claims (claimSBT
          (call demoCrypto (3, 1, ProcessPayment 10 25000 ''tx1'' 62) tx1Verified))
          (sbt_tokenIdCounter (claimSBT tx1Verified)))
        = 25000 * 10000 div totalFunding (project (vault tx1Verified))"
    by blast
  then show ?thesis
    using tx1Verified_evals by simp
qed

section \<open>A payment reference is consumed once\<close>

text \<open>No transaction changes the owner of the vault or the active flag of the project,
  and none clears a processed mark.\<close>

lemma exec_vault_stable:
  assumes "exec cr caller now op e = Inr e'"
  shows "pv_owner (vault e') = pv_owner (vault e)
     \<and> p_isActive (project (vault e')) = p_isActive (project (vault e))
     \<and> p_projectId (project (vault e')) = p_projectId (project (vault e))
     \<and> (processedPayments (vault e) k \<longrightarrow> processedPayments (vault e') k)"
proof (cases op)
  case (StakeAndMintReward claimId)
  then show ?thesis
    using assms
    by (auto simp: stakeAndMintReward_def Let_def split: if_splits sum.splits prod.splits)
next
  case (BurnReward rewardId)
  then show ?thesis
    using assms by (auto simp: burnReward_def Let_def split: if_splits sum.splits)
next
  case (AddMilestone nm descr amount)
  then show ?thesis
    using assms by (auto simp: lift_defs addMilestone_def split: if_splits sum.splits)
next
  case (ProcessPayment investor xrpAmount xrplTxHash xrpPrice)
  then show ?thesis
    using assms processPayment_success[of cr caller now investor xrpAmount xrplTxHash xrpPrice e e']
    by auto
next
  case (UnlockMilestone milestoneIndex attHash)
  then show ?thesis
    using assms by (auto simp: unlockMilestone_def Let_def split: if_splits)
next
  case (AddRevenue amount src)
  then show ?thesis
    using assms by (auto simp: lift_defs addRevenue_def split: if_splits sum.splits)
next
  case DistributeRevenue
  then show ?thesis
    using assms distributeRevenue_success[of caller e e'] by auto
qed (use assms in \<open>auto simp: lift_defs split: if_splits sum.splits\<close>)

text \<open>Apart from \<open>processPayment\<close> and the registry's own \<open>mintOrTopUp\<close>, no
  transaction creates a claim or changes the project or the payment reference of one.\<close>

lemma exec_claims_frame:
  assumes "exec cr caller now op e = Inr e'"
    and "\<not> registryMint op"
    and "\<And>investor xrpAmount xrplTxHash xrpPrice.
           op \<noteq> ProcessPayment investor xrpAmount xrplTxHash xrpPrice"
  shows "sbt_tokenIdCounter (claimSBT e') = sbt_tokenIdCounter (claimSBT e)
     \<and> (\<forall>t. projectId (claims (claimSBT e') t) = projectId (claims (claimSBT e) t)
            \<and> xrplSourceTx (claims (claimSBT e') t) = xrplSourceTx (claims (claimSBT e) t))"
proof (cases op)
  case (StakeAndMintReward claimId)
  then show ?thesis
    using assms(1)
    by (auto simp: stakeAndMintReward_def pause_def getClaimData_def Let_def
        split: if_splits sum.splits prod.splits)
next
  case (BurnReward rewardId)
  then show ?thesis
    using assms(1)
    by (auto simp: burnReward_def unpause_def Let_def split: if_splits sum.splits)
next
  case (UnlockMilestone milestoneIndex attHash)
  then show ?thesis
    using assms(1) by (auto simp: unlockMilestone_def Let_def split: if_splits)
next
  case DistributeRevenue
  then show ?thesis
    using assms(1) distributeRevenue_success[of caller e e'] by auto
qed (use assms in \<open>auto simp: lift_defs pause_def unpause_def approve_def
      setApprovalForAll_def transferFrom_def safeTransferFrom_def safeTransferFromData_def
      split: if_splits sum.splits\<close>)

lemma claimsOf_after_payment:
  assumes "processPayment cr caller now investor xrpAmount xrplTxHash xrpPrice e = Inr e'"
  shows "claimsOf e' r = claimsOf e r
           @ (if r = xrplTxHash then [sbt_tokenIdCounter (claimSBT e)] else [])"
proof -
  note s = processPayment_success[OF assms]
  let ?n = "sbt_tokenIdCounter (claimSBT e)"
  let ?P = "\<lambda>x t. projectId (claims (claimSBT x) t) = p_projectId (project (vault x))
        \<and> xrplSourceTx (claims (claimSBT x) t) = r"
  have cnt: "sbt_tokenIdCounter (claimSBT e') = Suc ?n"
    and pid: "p_projectId (project (vault e')) = p_projectId (project (vault e))"
    and new: "projectId (claims (claimSBT e') ?n) = p_projectId (project (vault e))"
             "xrplSourceTx (claims (claimSBT e') ?n) = xrplTxHash"
    and old: "\<And>t. t < ?n \<Longrightarrow> claims (claimSBT e') t = claims (claimSBT e) t"
    using s by simp_all
  have "filter (?P e') [0..<?n] = filter (?P e) [0..<?n]"
    by (rule filter_cong) (simp_all add: old pid)
  then show ?thesis
    using cnt new pid by (simp add: claimsOf_def)
qed

lemma consumedOnce_step:
  assumes inv: "consumedOnce cr e"
    and nm: "\<not> registryMint op"
    and ex: "exec cr caller now op e = Inr e'"
  shows "consumedOnce cr e'"
proof (cases "\<exists>investor xrpAmount xrplTxHash xrpPrice.
                op = ProcessPayment investor xrpAmount xrplTxHash xrpPrice")
  case True
  then obtain investor xrpAmount xrplTxHash xrpPrice where
    op: "op = ProcessPayment investor xrpAmount xrplTxHash xrpPrice"
    by blast
  with ex have ok: "processPayment cr caller now investor xrpAmount xrplTxHash xrpPrice e = Inr e'"
    by simp
  note s = processPayment_success[OF ok]
  have fresh: "\<not> processedPayments (vault e) (keccak256 cr xrplTxHash)"
    and mark: "processedPayments (vault e') (keccak256 cr xrplTxHash)"
    and keep: "\<And>k. processedPayments (vault e) k \<Longrightarrow> processedPayments (vault e') k"
    using s by simp_all
  from inv fresh have none: "claimsOf e xrplTxHash = []"
    unfolding consumedOnce_def by blast
  show ?thesis
    unfolding consumedOnce_def
  proof (intro allI conjI impI)
    fix r
    show "length (claimsOf e' r) \<le> 1"
      using claimsOf_after_payment[OF ok, of r] inv none
      unfolding consumedOnce_def by (cases "r = xrplTxHash") auto
    assume "claimsOf e' r \<noteq> []"
    then show "processedPayments (vault e') (keccak256 cr r)"
      using claimsOf_after_payment[OF ok, of r] inv mark keep
      unfolding consumedOnce_def by (cases "r = xrplTxHash") auto
  qed
next
  case False
  then have np: "\<And>investor xrpAmount xrplTxHash xrpPrice.
           op \<noteq> ProcessPayment investor xrpAmount xrplTxHash xrpPrice"
    by blast
  note f = exec_claims_frame[OF ex nm np]
  note v = exec_vault_stable[OF ex]
  have same: "claimsOf e' r = claimsOf e r" for r
    using f v[of undefined] by (simp add: claimsOf_def)
  show ?thesis
    using inv v unfolding consumedOnce_def same by blast
qed

lemma consumedOnce_deploy:
  "consumedOnce cr (deploy registrar smAddr admin vaultAddr pid funding bal)"
  by (simp add: consumedOnce_def claimsOf_def deploy_def newClaimSBT_def)

text \<open>
  C1. For every payment reference and every project: a successful \<open>processPayment\<close>
  mints exactly one claim (the next token id, carrying the reference; no other claim
  changes), marks the reference processed and adds the amount to the raised total in
  the same transaction; from then on, after any further transactions, every call of
  \<open>processPayment\<close> with that reference by the same caller fails with DuplicatePayment.
  A failing call leaves the whole state (raised, the processed marks, the claims) as it
  was. Along every run of transactions from deployment in which claims are minted by
  payment intake only, at most one claim of the project exists per reference.
\<close>

theorem payment_reference_consumed_once:
  "(processPayment cr caller now investor xrpAmount r xrpPrice e = Inr e' \<longrightarrow>
      sbt_tokenIdCounter (claimSBT e') = sbt_tokenIdCounter (claimSBT e) + 1
      \<and> xrplSourceTx (claims (claimSBT e') (sbt_tokenIdCounter (claimSBT e))) = r
      \<and> (\<forall>t. t \<noteq> sbt_tokenIdCounter (claimSBT e) \<longrightarrow>
             claims (claimSBT e') t = claims (claimSBT e) t)
      \<and> processedPayments (vault e') (keccak256 cr r)
      \<and> totalRaised (project (vault e')) = totalRaised (project (vault e)) + xrpAmount
      \<and> (\<forall>ts now' investor' xrpAmount' xrpPrice'.
            processPayment cr caller now' investor' xrpAmount' r xrpPrice' (run cr ts e')
              = Inl DuplicatePayment))
   \<and> (processPayment cr caller now investor xrpAmount r xrpPrice e = Inl err \<longrightarrow>
        call cr (caller, now, ProcessPayment investor xrpAmount r xrpPrice) e = e)
   \<and> (intakeRun ts \<longrightarrow>
        length (claimsOf (run cr ts (deploy registrar smAddr admin vaultAddr pid funding bal)) r)
          \<le> 1)"
proof (intro conjI impI)
  assume ok: "processPayment cr caller now investor xrpAmount r xrpPrice e = Inr e'"
  note s = processPayment_success[OF ok]
  show "sbt_tokenIdCounter (claimSBT e') = sbt_tokenIdCounter (claimSBT e) + 1"
    and "xrplSourceTx (claims (claimSBT e') (sbt_tokenIdCounter (claimSBT e))) = r"
    and "\<forall>t. t \<noteq> sbt_tokenIdCounter (claimSBT e) \<longrightarrow>
             claims (claimSBT e') t = claims (claimSBT e) t"
    and "processedPayments (vault e') (keccak256 cr r)"
    and "totalRaised (project (vault e')) = totalRaised (project (vault e)) + xrpAmount"
    using s by simp_all
  have start: "pv_owner (vault e') = caller \<and> p_isActive (project (vault e'))
      \<and> processedPayments (vault e') (keccak256 cr r)"
    using s by simp
  have later: "pv_owner (vault (run cr ts e')) = caller
      \<and> p_isActive (project (vault (run cr ts e')))
      \<and> processedPayments (vault (run cr ts e')) (keccak256 cr r)" for ts
    by (rule run_invariant[where P = "\<lambda>x. pv_owner (vault x) = caller
          \<and> p_isActive (project (vault x)) \<and> processedPayments (vault x) (keccak256 cr r)"])
       (use start exec_vault_stable in \<open>auto\<close>)
  show "\<forall>ts now' investor' xrpAmount' xrpPrice'.
            processPayment cr caller now' investor' xrpAmount' r xrpPrice' (run cr ts e')
              = Inl DuplicatePayment"
    using later by (simp add: processPayment_def Let_def)
next
  assume "processPayment cr caller now investor xrpAmount r xrpPrice e = Inl err"
  then show "call cr (caller, now, ProcessPayment investor xrpAmount r xrpPrice) e = e"
    by (simp add: call_def)
next
  assume "intakeRun ts"
  then have "list_all (\<lambda>t. \<not> registryMint (snd (snd t))) ts"
    by (simp add: intakeRun_def)
  then have "consumedOnce cr (run cr ts (deploy registrar smAddr admin vaultAddr pid funding bal))"
    using consumedOnce_deploy consumedOnce_step
    by (intro run_invariant_where[where P = "consumedOnce cr"
          and Q = "\<lambda>op. \<not> registryMint op"]) blast+
  then show "length (claimsOf (run cr ts (deploy registrar smAddr admin vaultAddr pid
      funding bal)) r) \<le> 1"
    unfolding consumedOnce_def by blast
qed

lemma paidTwice_evals:
  "processPayment demoCrypto 3 1 10 25000 ''tx1'' 62 tx1Verified
     = Inr (call demoCrypto (3, 1, ProcessPayment 10 25000 ''tx1'' 62) tx1Verified)"
  "processPayment demoCrypto 3 1 10 25000 ''tx7'' 62 tx1Verified = Inl UnverifiedPayment"
  "claimsOf paidTwice ''tx1'' = [0]"
  "pv_events (vault paidTwice) = [PaymentProcessed 10 25000 2500 ''tx1'']"
  by (simp_all add: tx1Verified_def paidTwice_def eval_defs verifyXRPLPayment_def claimsOf_def)

theorem payment_reference_consumed_once_witness:
  "processPayment demoCrypto 3 1 10 25000 ''tx1'' 62 tx1Verified
     = Inr (call demoCrypto (3, 1, ProcessPayment 10 25000 ''tx1'' 62) tx1Verified)
   \<and> processPayment demoCrypto 3 2 11 500 ''tx1'' 63
        (run demoCrypto [(10, 5, StakeAndMintReward 0)]
           (call demoCrypto (3, 1, ProcessPayment 10 25000 ''tx1'' 62) tx1Verified))
       = Inl DuplicatePayment
   \<and> processPayment demoCrypto 3 1 10 25000 ''tx7'' 62 tx1Verified = Inl UnverifiedPayment
   \<and> call demoCrypto (3, 1, ProcessPayment 10 25000 ''tx7'' 62) tx1Verified = tx1Verified
   \<and> length (claimsOf paidTwice ''tx1'') \<le> 1
   \<and> claimsOf paidTwice ''tx1'' = [0]
   \<and> pv_events (vault paidTwice) = [PaymentProcessed 10 25000 2500 ''tx1'']"
proof -
  note a = payment_reference_consumed_once[where cr = demoCrypto and caller = 3 and now = 1
      and investor = 10 and xrpAmount = 25000 and r = "''tx1''" and xrpPrice = 62
      and e = tx1Verified
      and e' = "call demoCrypto (3, 1, ProcessPayment 10 25000 ''tx1'' 62) tx1Verified"
      and ts = "[]"]
  from a paidTwice_evals(1)
  have dup: "processPayment demoCrypto 3 2 11 500 ''tx1'' 63
        (run demoCrypto [(10, 5, StakeAndMintReward 0)]
           (call demoCrypto (3, 1, ProcessPayment 10 25000 ''tx1'' 62) tx1Verified))
       = Inl DuplicatePayment"
    by blast
  note b = payment_reference_consumed_once[where cr = demoCrypto and caller = 3 and now = 1
      and investor = 10 and xrpAmount = 25000 and r = "''tx7''" and xrpPrice = 62
      and e = tx1Verified and err = UnverifiedPayment and ts = "[]"]
  from b paidTwice_evals(2)
  have same: "call demoCrypto (3, 1, ProcessPayment 10 25000 ''tx7'' 62) tx1Verified
      = tx1Verified"
    by blast
  have ir: "intakeRun [(3, 0, VerifyXRPLPayment ''tx1'' 20 4 25000 0 0),
      (3, 1, ProcessPayment 10 25000 ''tx1'' 62), (3, 2, ProcessPayment 10 25000 ''tx1'' 62)]"
    by (simp add: intakeRun_def)
  from payment_reference_consumed_once[where cr = demoCrypto and r = "''tx1''"
      and ts = "[(3, 0, VerifyXRPLPayment ''tx1'' 20 4 25000 0 0),
        (3, 1, ProcessPayment 10 25000 ''tx1'' 62), (3, 2, ProcessPayment 10 25000 ''tx1'' 62)]"
      and registrar = 2 and smAddr = 2 and admin = 3 and vaultAddr = 4 and pid = 1
      and funding = 100000 and bal = "\<lambda>_. 0"] ir
  have once: "length (claimsOf paidTwice ''tx1'') \<le> 1"
    unfolding paidTwice_def by blast
  show ?thesis
    using dup same once paidTwice_evals by blast
qed

section \<open>Unlocking a milestone\<close>

text \<open>The gate of \<open>unlockMilestone\<close>: for the owner and a Pending milestone, the call
  succeeds exactly when a verified attestation is stored under the hash of the text
  argument.\<close>

lemma unlockMilestone_gate:
  assumes "caller = pv_owner (vault e)"
    and "i < length (milestones (vault e))"
    and "m_status (milestones (vault e) ! i) = Pending"
  shows "unlockMilestone cr caller now i arg e =
     (if verifyMilestoneAttestation (oracleAdapter e) (keccak256 cr arg)
      then Inr (e\<lparr>vault := (vault e)\<lparr>
             milestones := (milestones (vault e))[i :=
               (milestones (vault e) ! i)\<lparr>m_status := Unlocked, unlockTimestamp := now,
                  attestationHash := arg\<rparr>],
             pv_events := pv_events (vault e) @
               [MilestoneUnlocked (p_projectId (project (vault e))) i arg]\<rparr>\<rparr>)
      else Inl InvalidAttestation)"
  using assms by (simp add: unlockMilestone_def Let_def)

lemma attestedKey_value: "attestedKey = 20823"
  by (simp add: attestedKey_def demoCrypto_def packUint256_def upt_conv_Cons)

lemma attestedKey_as_text:
  "bytes32Hex attestedKey
     = ''0x0000000000000000000000000000000000000000000000000000000000005157''"
  by (simp add: attestedKey_value bytes32Hex_def hexDigit_def upt_conv_Cons)

lemma hash_of_key_text:
  "keccak256 demoCrypto (bytes32Hex attestedKey) = 22262"
  "keccak256 demoCrypto (packUint256 attestedKey) = 22642"
  by (simp_all add: attestedKey_value demoCrypto_def bytes32Hex_def hexDigit_def
      packUint256_def upt_conv_Cons)

lemma demo_recover:
  "ecrecover demoCrypto h sg = (if sg = [] then None else Some (length sg))"
  by (simp add: demoCrypto_def)

lemma attestedKey_fold:
  "keccak256 demoCrypto (packUint256 1 @ packUint256 0 @ ''QmProof'' @ packUint256 7)
     = attestedKey"
  by (simp only: attestedKey_def)

lemma signer_of_sig05: "Suc (Suc (Suc (Suc (Suc 0)))) = (5::nat)"
  by simp

lemma attested_state:
  "createMilestoneAttestation demoCrypto 7 1 0 ''script'' ''final draft'' ''QmProof'' ''sig05''
     (oracleAdapter beforeAttestation) = Inr (attestedKey, oracleAdapter attested)"
  "milestoneAttestations (oracleAdapter attested) =
     (\<lambda>_. noAttestation)(attestedKey :=
        \<lparr>att_projectId = 1, att_milestoneIndex = 0, att_milestoneName = ''script'',
         att_description = ''final draft'', att_proofHash = ''QmProof'', att_timestamp = 7,
         att_verifier = 5, att_verified = True\<rparr>)"
  "pv_owner (vault attested) = 3"
  "length (milestones (vault attested)) = 1"
  "m_status (milestones (vault attested) ! 0) = Pending"
  unfolding attested_def call_def fst_conv snd_conv exec.simps createMilestoneAttestation_def
    Let_def attestedKey_fold demo_recover
  by (simp_all add: beforeAttestation_def deploy_def newClaimSBT_def
      newRewardNFT_def newStakeManager_def newProjectVault_def newOracleAdapter_def
      call_def lift_defs setVerifierAuthorization_def addMilestone_def signer_of_sig05)

text \<open>
  C6, at the failing input. The oracle accepts an attestation for the Pending milestone 0
  and \<open>createMilestoneAttestation\<close> returns its key; the attestation is verified
  under that key. \<open>unlockMilestone\<close>, called by the owner with the returned key
  (written as text, or as its 32 bytes), fails with InvalidAttestation, because it looks
  the attestation up under the hash of its argument; it succeeds when it is given the
  bytes that the key is the hash of.
\<close>

theorem unlockMilestone_rejects_returned_key:
  "createMilestoneAttestation demoCrypto 7 1 0 ''script'' ''final draft'' ''QmProof'' ''sig05''
     (oracleAdapter beforeAttestation) = Inr (attestedKey, oracleAdapter attested)
   \<and> verifyMilestoneAttestation (oracleAdapter attested) attestedKey
   \<and> m_status (milestones (vault attested) ! 0) = Pending
   \<and> bytes32Hex attestedKey
       = ''0x0000000000000000000000000000000000000000000000000000000000005157''
   \<and> unlockMilestone demoCrypto 3 8 0 (bytes32Hex attestedKey) attested
       = Inl InvalidAttestation
   \<and> unlockMilestone demoCrypto 3 8 0 (packUint256 attestedKey) attested
       = Inl InvalidAttestation
   \<and> m_status (milestones (vault (call demoCrypto (3, 8, UnlockMilestone 0
         (packUint256 1 @ packUint256 0 @ ''QmProof'' @ packUint256 7)) attested)) ! 0)
       = Unlocked"
proof -
  have v: "verifyMilestoneAttestation (oracleAdapter attested) attestedKey"
    by (simp add: verifyMilestoneAttestation_def attested_state(2))
  have n1: "\<not> verifyMilestoneAttestation (oracleAdapter attested)
              (keccak256 demoCrypto (bytes32Hex attestedKey))"
    and n2: "\<not> verifyMilestoneAttestation (oracleAdapter attested)
              (keccak256 demoCrypto (packUint256 attestedKey))"
    using hash_of_key_text
    by (simp_all add: verifyMilestoneAttestation_def attested_state(2) attestedKey_value
        noAttestation_def)
  have g: "unlockMilestone demoCrypto 3 8 0 arg attested =
     (if verifyMilestoneAttestation (oracleAdapter attested) (keccak256 demoCrypto arg)
      then Inr (attested\<lparr>vault := (vault attested)\<lparr>
             milestones := (milestones (vault attested))[0 :=
               (milestones (vault attested) ! 0)\<lparr>m_status := Unlocked, unlockTimestamp := 8,
                  attestationHash := arg\<rparr>],
             pv_events := pv_events (vault attested) @
               [MilestoneUnlocked (p_projectId (project (vault attested))) 0 arg]\<rparr>\<rparr>)
      else Inl InvalidAttestation)" for arg
    by (rule unlockMilestone_gate) (simp_all add: attested_state)
  have u1: "unlockMilestone demoCrypto 3 8 0 (bytes32Hex attestedKey) attested
       = Inl InvalidAttestation"
    using g n1 by simp
  have u2: "unlockMilestone demoCrypto 3 8 0 (packUint256 attestedKey) attested
       = Inl InvalidAttestation"
    using g n2 by simp
  have u3: "m_status (milestones (vault (call demoCrypto (3, 8, UnlockMilestone 0
         (packUint256 1 @ packUint256 0 @ ''QmProof'' @ packUint256 7)) attested)) ! 0)
       = Unlocked"
    using g[of "packUint256 1 @ packUint256 0 @ ''QmProof'' @ packUint256 7"] v
      attested_state(4)
    unfolding call_def fst_conv snd_conv exec.simps attestedKey_fold
    by simp
  show ?thesis
    using attested_state(1,5) v attestedKey_as_text u1 u2 u3 by blast
qed

section \<open>Staked claims and active rewards\<close>

lemma filter_single_out:
  assumes "length (filter P xs) = 1" and "r \<in> set xs" and "P r"
  shows "filter (\<lambda>x. P x \<and> x \<noteq> r) xs = []"
proof -
  from assms(1) obtain y where y: "filter P xs = [y]"
    by (cases "filter P xs") auto
  have "r \<in> set (filter P xs)"
    using assms(2,3) by simp
  then have "y = r"
    using y by simp
  have "filter (\<lambda>x. P x \<and> x \<noteq> r) xs = filter (\<lambda>x. x \<noteq> r) (filter P xs)"
    by (simp add: conj_commute)
  then show ?thesis
    using y \<open>y = r\<close> by simp
qed

text \<open>What the transactions other than the stake, the burn and the owner-only
  functions leave alone.\<close>

lemma exec_stake_frame:
  assumes "exec cr caller now op e = Inr e'"
    and "\<not> registrarOp op"
    and "\<And>claimId. op \<noteq> StakeAndMintReward claimId"
    and "\<And>rewardId. op \<noteq> BurnReward rewardId"
  shows "rewards (rewardNFT e') = rewards (rewardNFT e)
     \<and> rw_tokenIdCounter (rewardNFT e') = rw_tokenIdCounter (rewardNFT e)
     \<and> stakes (stakeManager e') = stakes (stakeManager e)
     \<and> (\<forall>c. erc721_exists (sbt_owners (claimSBT e)) c \<longrightarrow>
            erc721_exists (sbt_owners (claimSBT e')) c)
     \<and> (\<forall>c. status (claims (claimSBT e') c) = status (claims (claimSBT e) c)
            \<or> (\<not> erc721_exists (sbt_owners (claimSBT e)) c
                \<and> status (claims (claimSBT e') c) = Active))"
proof (cases op)
  case (MintOrTopUp to amount)
  then show ?thesis
    using assms(1)
    by (auto simp: lift_defs mintOrTopUp_def erc721_mint_def erc721_exists_def Let_def
        split: if_splits sum.splits)
next
  case (ProcessPayment investor xrpAmount xrplTxHash xrpPrice)
  then show ?thesis
    using assms(1)
    by (auto simp: processPayment_def mintClaim_def erc721_mint_def erc721_exists_def Let_def
        split: if_splits sum.splits prod.splits)
next
  case (RewardTransferFrom sender to tokenId)
  then show ?thesis
    using assms(1)
    by (auto simp: lift_defs rw_transferFrom_def split: if_splits sum.splits)
next
  case (RewardApprove to tokenId)
  then show ?thesis
    using assms(1)
    by (auto simp: lift_defs rw_approve_def split: if_splits sum.splits)
next
  case (RewardSetApprovalForAll operator approved)
  then show ?thesis
    using assms(1)
    by (auto simp: lift_defs rw_setApprovalForAll_def split: if_splits sum.splits)
next
  case (UnlockMilestone milestoneIndex attHash)
  then show ?thesis
    using assms(1) by (auto simp: unlockMilestone_def Let_def split: if_splits)
next
  case DistributeRevenue
  then show ?thesis
    using assms(1) distributeRevenue_success[of caller e e'] by auto
qed (use assms in \<open>auto simp: lift_defs approve_def setApprovalForAll_def transferFrom_def
      safeTransferFrom_def safeTransferFromData_def split: if_splits sum.splits\<close>)

lemma pairingInv_frame:
  assumes inv: "pairingInv e"
    and "rewards (rewardNFT e') = rewards (rewardNFT e)"
    and "rw_tokenIdCounter (rewardNFT e') = rw_tokenIdCounter (rewardNFT e)"
    and "stakes (stakeManager e') = stakes (stakeManager e)"
    and ex: "\<forall>c. erc721_exists (sbt_owners (claimSBT e)) c \<longrightarrow>
            erc721_exists (sbt_owners (claimSBT e')) c"
    and st: "\<forall>c. status (claims (claimSBT e') c) = status (claims (claimSBT e) c)
            \<or> (\<not> erc721_exists (sbt_owners (claimSBT e)) c
                \<and> status (claims (claimSBT e') c) = Active)"
  shows "pairingInv e'"
proof -
  have same: "activeRewardsOf e' c = activeRewardsOf e c" for c
    using assms(2,3) by (simp add: activeRewardsOf_def)
  have b: "(status (claims (claimSBT e') c) = Staked) = isStaked (stakes (stakeManager e') c)"
    for c
    using inv st assms(4) unfolding pairingInv_def by (metis ClaimStatus.distinct(1))
  show ?thesis
    using inv ex b unfolding pairingInv_def same assms(2,3,4) by blast
qed

lemma pairingInv_stake:
  assumes inv: "pairingInv e"
    and ok: "stakeAndMintReward caller now c e = Inr e'"
  shows "pairingInv e'"
proof -
  note s = stakeAndMintReward_success[OF ok]
  let ?n = "rw_tokenIdCounter (rewardNFT e)"
  have bound: "\<And>r. isActive (rewards (rewardNFT e) r) \<Longrightarrow> r < ?n"
    using inv unfolding pairingInv_def by blast
  have old: "rewards (rewardNFT e') r = rewards (rewardNFT e) r" if "r < ?n" for r
    using s that by simp
  have new: "isActive (rewards (rewardNFT e') ?n)" "claimTokenId (rewards (rewardNFT e') ?n) = c"
    using s by simp_all
  have cnt: "rw_tokenIdCounter (rewardNFT e') = Suc ?n"
    using s by simp
  have lists: "activeRewardsOf e' d = activeRewardsOf e d @ (if d = c then [?n] else [])" for d
  proof -
    have "filter (\<lambda>r. isActive (rewards (rewardNFT e') r)
              \<and> claimTokenId (rewards (rewardNFT e') r) = d) [0..<?n]
        = filter (\<lambda>r. isActive (rewards (rewardNFT e) r)
              \<and> claimTokenId (rewards (rewardNFT e) r) = d) [0..<?n]"
      by (rule filter_cong) (simp_all add: old)
    then show ?thesis
      using cnt new by (simp add: activeRewardsOf_def)
  qed
  have none: "activeRewardsOf e c = []"
    using inv s unfolding pairingInv_def by blast
  have a: "\<forall>r. isActive (rewards (rewardNFT e') r) \<longrightarrow> r < rw_tokenIdCounter (rewardNFT e')"
    using bound s by (auto simp: less_Suc_eq)
  have b: "\<forall>d. (status (claims (claimSBT e') d) = Staked) = isStaked (stakes (stakeManager e') d)"
    using inv s unfolding pairingInv_def by simp
  have c: "\<forall>d. isStaked (stakes (stakeManager e') d) \<longrightarrow>
             erc721_exists (sbt_owners (claimSBT e')) d \<and> length (activeRewardsOf e' d) = 1"
    using inv s none unfolding pairingInv_def lists by simp
  have d: "\<forall>d. \<not> isStaked (stakes (stakeManager e') d) \<longrightarrow> activeRewardsOf e' d = []"
    using inv s unfolding pairingInv_def lists by simp
  show ?thesis
    unfolding pairingInv_def using a b c d by blast
qed

lemma pairingInv_burn:
  assumes inv: "pairingInv e"
    and ok: "burnReward caller r e = Inr e'"
  shows "pairingInv e'"
proof -
  note s = burnReward_success[OF ok]
  let ?n = "rw_tokenIdCounter (rewardNFT e)"
  let ?c = "claimTokenId (rewards (rewardNFT e) r)"
  let ?P = "\<lambda>d x. isActive (rewards (rewardNFT e) x) \<and> claimTokenId (rewards (rewardNFT e) x) = d"
  have act: "isActive (rewards (rewardNFT e) r)"
    using s by simp
  then have rn: "r < ?n"
    using inv unfolding pairingInv_def by blast
  have cnt: "rw_tokenIdCounter (rewardNFT e') = ?n"
    using s by simp
  have lists: "activeRewardsOf e' d = filter (\<lambda>x. ?P d x \<and> x \<noteq> r) [0..<?n]" for d
    unfolding activeRewardsOf_def cnt
    by (rule filter_cong) (use s in \<open>auto\<close>)
  have inlist: "r \<in> set (activeRewardsOf e ?c)"
    using act rn by (simp add: activeRewardsOf_def)
  then have staked: "isStaked (stakes (stakeManager e) ?c)"
    using inv unfolding pairingInv_def by fastforce
  then have one: "length (filter (?P ?c) [0..<?n]) = 1"
    using inv unfolding pairingInv_def activeRewardsOf_def by blast
  have gone: "activeRewardsOf e' ?c = []"
    unfolding lists using filter_single_out[OF one, of r] rn act by simp
  have other: "activeRewardsOf e' d = activeRewardsOf e d" if "d \<noteq> ?c" for d
  proof -
    have "filter (\<lambda>x. ?P d x \<and> x \<noteq> r) [0..<?n] = filter (?P d) [0..<?n]"
      by (rule filter_cong) (use that in \<open>auto\<close>)
    then show ?thesis
      unfolding lists by (simp add: activeRewardsOf_def)
  qed
  have a: "\<forall>x. isActive (rewards (rewardNFT e') x) \<longrightarrow> x < rw_tokenIdCounter (rewardNFT e')"
    using inv s unfolding pairingInv_def by simp
  have b: "\<forall>d. (status (claims (claimSBT e') d) = Staked) = isStaked (stakes (stakeManager e') d)"
    using inv s unfolding pairingInv_def by simp
  have c: "\<forall>d. isStaked (stakes (stakeManager e') d) \<longrightarrow>
             erc721_exists (sbt_owners (claimSBT e')) d \<and> length (activeRewardsOf e' d) = 1"
    using inv s other unfolding pairingInv_def by simp
  have d: "\<forall>d. \<not> isStaked (stakes (stakeManager e') d) \<longrightarrow> activeRewardsOf e' d = []"
    using inv s other gone unfolding pairingInv_def by (metis fun_upd_apply)
  show ?thesis
    unfolding pairingInv_def using a b c d by blast
qed

lemma pairingInv_step:
  assumes inv: "pairingInv e"
    and nr: "\<not> registrarOp op"
    and ex: "exec cr caller now op e = Inr e'"
  shows "pairingInv e'"
proof -
  consider (stake) c where "op = StakeAndMintReward c"
    | (burn) r where "op = BurnReward r"
    | (other) "\<And>claimId. op \<noteq> StakeAndMintReward claimId"
        "\<And>rewardId. op \<noteq> BurnReward rewardId"
    by blast
  then show ?thesis
  proof cases
    case stake
    with ex have "stakeAndMintReward caller now c e = Inr e'"
      by simp
    then show ?thesis
      by (rule pairingInv_stake[OF inv])
  next
    case burn
    with ex have "burnReward caller r e = Inr e'"
      by simp
    then show ?thesis
      by (rule pairingInv_burn[OF inv])
  next
    case other
    note f = exec_stake_frame[OF ex nr other]
    show ?thesis
      by (rule pairingInv_frame[OF inv]) (use f in \<open>simp_all\<close>)
  qed
qed

lemma pairingInv_deploy:
  "pairingInv (deploy registrar smAddr admin vaultAddr pid funding bal)"
  by (simp add: pairingInv_def activeRewardsOf_def deploy_def newClaimSBT_def newRewardNFT_def
      newStakeManager_def noReward_def noClaim_def noStake_def)

lemma pausedByOwner_evals:
  "erc721_exists (sbt_owners (claimSBT pausedByOwner)) 0"
  "status (claims (claimSBT pausedByOwner) 0) = Staked"
  "rw_tokenIdCounter (rewardNFT pausedByOwner) = 0"
  "activeRewardsOf pausedByOwner 0 = []"
  by (simp_all add: pausedByOwner_def eval_defs verifyXRPLPayment_def pause_def
      activeRewardsOf_def)

text \<open>
  C2 as stated fails: \<open>pause\<close> is an operation of the registry that its owner can
  call. After it the claim 0 exists and is Staked, and no reward was ever minted.
\<close>

theorem staked_without_reward_counterexample:
  "erc721_exists (sbt_owners (claimSBT pausedByOwner)) 0
   \<and> status (claims (claimSBT pausedByOwner) 0) = Staked
   \<and> rw_tokenIdCounter (rewardNFT pausedByOwner) = 0
   \<and> length (activeRewardsOf pausedByOwner 0) \<noteq> 1"
  using pausedByOwner_evals by simp

text \<open>
  C2 (amended). In every state reached from deployment by transactions that do not call
  the owner-only functions \<open>pause\<close>, \<open>unpause\<close>, \<open>mintReward\<close> and
  \<open>RewardNFT.burnReward\<close> directly (the stake manager calls them inside
  \<open>stakeAndMintReward\<close> and \<open>burnReward\<close>): stakes, burns, claim mints, transfers
  of rewards and every other operation of the engine, for every claim, the status is
  Staked if and only if exactly one active reward references the claim; every active
  reward is among the allocated reward ids that are counted.
\<close>

theorem staked_iff_one_active_reward:
  "stakeRun ts \<longrightarrow>
     (status (claims (claimSBT
         (run cr ts (deploy registrar smAddr admin vaultAddr pid funding bal))) c) = Staked)
       = (length (activeRewardsOf
           (run cr ts (deploy registrar smAddr admin vaultAddr pid funding bal)) c) = 1)
     \<and> (\<forall>r. isActive (rewards (rewardNFT
           (run cr ts (deploy registrar smAddr admin vaultAddr pid funding bal))) r) \<longrightarrow>
          r < rw_tokenIdCounter (rewardNFT
           (run cr ts (deploy registrar smAddr admin vaultAddr pid funding bal))))"
proof
  assume "stakeRun ts"
  then have all: "list_all (\<lambda>t. \<not> registrarOp (snd (snd t))) ts"
    by (simp add: stakeRun_def)
  let ?e = "run cr ts (deploy registrar smAddr admin vaultAddr pid funding bal)"
  have inv: "pairingInv ?e"
    using all pairingInv_deploy pairingInv_step
    by (intro run_invariant_where[where P = pairingInv
          and Q = "\<lambda>op. \<not> registrarOp op"]) blast+
  have "(status (claims (claimSBT ?e) c) = Staked) = (length (activeRewardsOf ?e c) = 1)"
  proof (cases "isStaked (stakes (stakeManager ?e) c)")
    case True
    then show ?thesis
      using inv unfolding pairingInv_def by blast
  next
    case False
    then have "activeRewardsOf ?e c = []" and "status (claims (claimSBT ?e) c) \<noteq> Staked"
      using inv unfolding pairingInv_def by blast+
    then show ?thesis by simp
  qed
  moreover have "\<forall>r. isActive (rewards (rewardNFT ?e) r) \<longrightarrow> r < rw_tokenIdCounter (rewardNFT ?e)"
    using inv unfolding pairingInv_def by blast
  ultimately show "(status (claims (claimSBT ?e) c) = Staked)
       = (length (activeRewardsOf ?e c) = 1)
     \<and> (\<forall>r. isActive (rewards (rewardNFT ?e) r) \<longrightarrow> r < rw_tokenIdCounter (rewardNFT ?e))"
    by blast
qed

lemma afterStakes_evals:
  "status (claims (claimSBT afterStakes) 0) = Staked"
  "status (claims (claimSBT afterStakes) 1) = Active"
  "rw_tokenIdCounter (rewardNFT afterStakes) = 2"
  "rw_owners (rewardNFT afterStakes) 0 = 12"
  "isActive (rewards (rewardNFT afterStakes) 0)"
  "\<not> isActive (rewards (rewardNFT afterStakes) 1)"
  by (simp_all add: afterStakes_def stakedAndBurned_def eval_defs stakeAndMintReward_def
      burnReward_def pause_def unpause_def mintReward_def RewardNFT_burnReward_def
      hasActiveReward_def claimOf_def rw_transferFrom_def rw_isApprovedOrOwner_def
      noStake_def noReward_def)

theorem staked_iff_one_active_reward_witness:
  "stakeRun stakedAndBurned
   \<and> status (claims (claimSBT afterStakes) 0) = Staked
   \<and> length (activeRewardsOf afterStakes 0) = 1
   \<and> status (claims (claimSBT afterStakes) 1) = Active
   \<and> length (activeRewardsOf afterStakes 1) \<noteq> 1
   \<and> rw_owners (rewardNFT afterStakes) 0 = 12"
proof -
  have sr: "stakeRun stakedAndBurned"
    by (simp add: stakeRun_def stakedAndBurned_def)
  note t = staked_iff_one_active_reward[where ts = stakedAndBurned and cr = demoCrypto
      and registrar = 2 and smAddr = 2 and admin = 3 and vaultAddr = 4 and pid = 1
      and funding = 10000 and bal = "\<lambda>_. 0", folded afterStakes_def]
  from t[where c = 0] sr afterStakes_evals(1)
  have a: "length (activeRewardsOf afterStakes 0) = 1"
    by blast
  from t[where c = 1] sr afterStakes_evals(2)
  have b: "length (activeRewardsOf afterStakes 1) \<noteq> 1"
    by auto
  show ?thesis
    using sr a b afterStakes_evals by blast
qed

section \<open>The status of a claim\<close>









lemma runAdmin_Nil [simp]: "runAdmin cr [] e = e"
  by (simp add: runAdmin_def)

lemma runAdmin_Cons [simp]: "runAdmin cr (t # ts) e = runAdmin cr ts (callAdmin cr t e)"
  by (simp add: runAdmin_def)






end
